theory Spec2Isabelle
  imports Complex_Main "HOL-Library.Sublist" "HOL-Library.List_Lexorder" "HOL-Library.Char_ord"
begin

section \<open>Numeric and calendar model\<close>

text \<open>
  The scripts compute on Python floats. The embedding idealises a finite float as the real
  number it denotes, so \<open>max\<close>, \<open>min\<close>, comparison, sum and division are the exact
  operations, and rounding error and overflow of finite values are left out. What is not
  left out is a value that is not finite: a return over a close of 0 is infinite or NaN,
  and a mean or standard deviation that pandas cannot compute is NaN. Such a statistic is
  \<open>None\<close> in the model, and the exception it leads to is a result of the function.

  A \<open>datetime\<close> restricted to a day is its proleptic Gregorian ordinal
  (\<open>date.toordinal()\<close>): \<open>timedelta(days=k)\<close> adds \<open>k\<close>, and
  \<open>weekday()\<close> is \<open>(ordinal + 6) % 7\<close> with Monday = 0 and Sunday = 6.
  \<open>strftime('%Y-%m-%d')\<close> is injective on days, so two date strings are equal exactly
  when the ordinals are.
\<close>

type_synonym date = int

definition weekday :: "date \<Rightarrow> int" where
  "weekday d = (d + 6) mod 7"

text \<open>
  \<open>round(x, 2)\<close> on a float rounds the exact value to two decimals, ties to even.
\<close>

definition round_half_even :: "real \<Rightarrow> int" where
  "round_half_even y =
     (let f = \<lfloor>y\<rfloor>; d = y - of_int f
      in if d < 1 / 2 then f
         else if 1 / 2 < d then f + 1
         else if even f then f else f + 1)"

definition py_round2 :: "real \<Rightarrow> real" where
  "py_round2 x = of_int (round_half_even (x * 100)) / 100"

text \<open>A candle is the dict \<open>{date, open, high, low, close, volume}\<close>; a DataFrame row
  of the historical window has the same columns.\<close>

record candle =
  c_date :: date
  c_open :: real
  c_high :: real
  c_low :: real
  c_close :: real
  c_volume :: real

definition ohlc_ok :: "candle \<Rightarrow> bool" where
  "ohlc_ok c = (c_low c \<le> c_open c \<and> c_open c \<le> c_high c \<and>
                c_low c \<le> c_close c \<and> c_close c \<le> c_high c)"

text \<open>The exceptions the modelled code can raise.\<close>

datatype py_error = IndexError | ZeroDivisionError | OverflowError

section \<open>update\_predictions\_1003.py\<close>

subsection \<open>pandas and numpy primitives\<close>

text \<open>
  \<open>Series.pct_change().dropna()\<close>: the simple returns \<open>x[t] / x[t-1] - 1\<close>. Float
  division by zero does not raise in pandas: over a previous value of 0 the return is
  infinite when \<open>x[t]\<close> is not 0 and NaN when it is. \<open>dropna\<close> removes the NaN entries
  (the leading one among them) and keeps the infinite ones.
\<close>

datatype float_return = Finite real | Infinite

fun pct_change :: "real list \<Rightarrow> float_return list" where
  "pct_change (a # b # xs) =
     (if a \<noteq> 0 then Finite (b / a - 1) # pct_change (b # xs)
      else if b \<noteq> 0 then Infinite # pct_change (b # xs)
      else pct_change (b # xs))"
| "pct_change [a] = []"
| "pct_change [] = []"

text \<open>The values of a series when all of them are finite.\<close>

fun finite_values :: "float_return list \<Rightarrow> real list option" where
  "finite_values [] = Some []"
| "finite_values (Finite x # rs) = map_option ((#) x) (finite_values rs)"
| "finite_values (Infinite # rs) = None"

definition mean :: "real list \<Rightarrow> real" where
  "mean xs = sum_list xs / real (length xs)"

text \<open>The sample standard deviation (ddof = 1) of two values or more.\<close>

definition sample_std :: "real list \<Rightarrow> real" where
  "sample_std xs = sqrt (sum_list (map (\<lambda>x. (x - mean xs)\<^sup>2) xs) / (real (length xs) - 1))"

text \<open>
  \<open>Series.mean()\<close> and \<open>Series.std()\<close> of a series of returns; \<open>None\<close> is a result
  that is not finite. The mean of no value is NaN, and with an infinite entry it is
  infinite or NaN. The standard deviation of fewer than two values is NaN, and so is that
  of a series with an infinite entry.
\<close>

definition pd_mean :: "float_return list \<Rightarrow> real option" where
  "pd_mean rs =
     (case finite_values rs of
        None \<Rightarrow> None
      | Some xs \<Rightarrow> if xs = [] then None else Some (mean xs))"

definition pd_std :: "float_return list \<Rightarrow> real option" where
  "pd_std rs =
     (case finite_values rs of
        None \<Rightarrow> None
      | Some xs \<Rightarrow> if length xs < 2 then None else Some (sample_std xs))"

text \<open>\<open>tail(n)\<close>: the last \<open>n\<close> rows, all of them when there are fewer.\<close>

definition tail :: "nat \<Rightarrow> 'a list \<Rightarrow> 'a list" where
  "tail n xs = drop (length xs - n) xs"

text \<open>
  The global numpy generator is a state threaded through the calls: a stream of raw draws
  and a read position. \<open>normal(loc, scale)\<close> is \<open>loc + scale * z\<close> for the next standard
  normal draw \<open>z\<close>, \<open>uniform(lo, hi)\<close> is \<open>lo + (hi - lo) * u\<close> for the next draw \<open>u\<close>
  of \<open>[0, 1)\<close>. No theorem below restricts the values of the stream.
\<close>

record rng =
  draws :: "nat \<Rightarrow> real"
  pos :: nat

definition random_normal :: "real \<Rightarrow> real \<Rightarrow> rng \<Rightarrow> real \<times> rng" where
  "random_normal loc scale g = (loc + scale * draws g (pos g), g\<lparr>pos := Suc (pos g)\<rparr>)"

definition random_uniform :: "real \<Rightarrow> real \<Rightarrow> rng \<Rightarrow> real \<times> rng" where
  "random_uniform lo hi g = (lo + (hi - lo) * draws g (pos g), g\<lparr>pos := Suc (pos g)\<rparr>)"

subsection \<open>generate\_predictions\<close>

text \<open>The inner \<open>while pred_date.weekday() >= 5: pred_date += timedelta(days=1)\<close>.\<close>

function skip_weekends :: "date \<Rightarrow> date" where
  "skip_weekends d = (if 5 \<le> weekday d then skip_weekends (d + 1) else d)"
  by pat_completeness auto
termination
proof (relation "measure (\<lambda>d. nat ((7 - weekday d) mod 7))")
  show "wf (measure (\<lambda>d. nat ((7 - weekday d) mod 7)))"
    by simp
next
  fix d :: date
  assume "5 \<le> weekday d"
  then have "(7 - weekday (d + 1)) mod 7 < (7 - weekday d) mod 7 \<and> 0 \<le> (7 - weekday (d + 1)) mod 7"
    unfolding weekday_def by presburger
  then show "(d + 1, d) \<in> measure (\<lambda>d. nat ((7 - weekday d) mod 7))"
    by simp
qed

declare skip_weekends.simps [simp del]

text \<open>The values computed before the loop.\<close>

record estimates =
  volatility :: "real option"
  mean_return :: "real option"
  recent_volatility :: "real option"
  recent_mean :: "real option"
  avg_volume :: real
  last_close :: real
  last_date :: date

definition estimate :: "candle list \<Rightarrow> estimates" where
  "estimate historical_data =
     (let returns = pct_change (map c_close historical_data);
          recent_returns = tail 20 returns
      in \<lparr> volatility = pd_std returns,
           mean_return = pd_mean returns,
           recent_volatility = pd_std recent_returns,
           recent_mean = pd_mean recent_returns,
           avg_volume = mean (tail 20 (map c_volume historical_data)),
           last_close = c_close (last historical_data),
           last_date = c_date (last historical_data) \<rparr>)"

text \<open>One pass of the loop body for index \<open>i\<close> when the three estimates it reads are
  the finite numbers \<open>rm\<close> (\<open>recent_mean\<close>), \<open>mr\<close> (\<open>mean_return\<close>) and \<open>rv\<close>
  (\<open>recent_volatility\<close>): the candle appended, the new \<open>current_price\<close> and the
  generator afterwards.\<close>

definition predict_day_finite ::
  "real \<Rightarrow> real \<Rightarrow> real \<Rightarrow> estimates \<Rightarrow> nat \<Rightarrow> real \<Rightarrow> rng \<Rightarrow> candle \<times> real \<times> rng" where
  "predict_day_finite rm mr rv e i current_price g =
     (let pred_date = skip_weekends (last_date e + (int i + 1));
          weighted_return = 0.7 * rm + 0.3 * mr;
          momentum = sgn rm * 0.002;
          (noise, g1) = random_normal 0 rv g;
          daily_return = weighted_return + momentum + noise;
          price = current_price * (1 + daily_return);
          daily_range = price * rv * 1.5;
          (u_open, g2) = random_uniform (- daily_range / 4) (daily_range / 4) g1;
          pred_open = price + u_open;
          (u_high, g3) = random_uniform 0 (daily_range / 2) g2;
          pred_high = max pred_open price + u_high;
          (u_low, g4) = random_uniform 0 (daily_range / 2) g3;
          pred_low = min pred_open price - u_low;
          pred_close = price;
          pred_high' = max (max pred_high pred_open) pred_close;
          pred_low' = min (min pred_low pred_open) pred_close
      in (\<lparr> c_date = pred_date,
             c_open = py_round2 pred_open,
             c_high = py_round2 pred_high',
             c_low = py_round2 pred_low',
             c_close = py_round2 pred_close,
             c_volume = avg_volume e \<rparr>, price, g4))"

text \<open>
  One pass of the loop body. When \<open>recent_mean\<close>, \<open>mean_return\<close> or
  \<open>recent_volatility\<close> is not finite, so is \<open>daily_return\<close> (a sum with it, or with a
  NaN noise), hence \<open>current_price\<close> and \<open>daily_range\<close> (products with it), and the first
  \<open>np.random.uniform\<close> of the pass raises \<open>OverflowError\<close> on a range that is not
  finite.
\<close>

definition predict_day ::
  "estimates \<Rightarrow> nat \<Rightarrow> real \<Rightarrow> rng \<Rightarrow> py_error + (candle \<times> real \<times> rng)" where
  "predict_day e i current_price g =
     (case recent_mean e of
        None \<Rightarrow> Inl OverflowError
      | Some rm \<Rightarrow>
         (case mean_return e of
            None \<Rightarrow> Inl OverflowError
          | Some mr \<Rightarrow>
             (case recent_volatility e of
                None \<Rightarrow> Inl OverflowError
              | Some rv \<Rightarrow> Inr (predict_day_finite rm mr rv e i current_price g))))"

text \<open>\<open>for i in range(prediction_days)\<close>, from index \<open>i\<close> with \<open>n\<close> passes left.\<close>

fun predict_loop ::
  "estimates \<Rightarrow> nat \<Rightarrow> nat \<Rightarrow> real \<Rightarrow> rng \<Rightarrow> py_error + (candle list \<times> rng)" where
  "predict_loop e i 0 current_price g = Inr ([], g)"
| "predict_loop e i (Suc n) current_price g =
     (case predict_day e i current_price g of
        Inl err \<Rightarrow> Inl err
      | Inr (c, price, g') \<Rightarrow>
         (case predict_loop e (Suc i) n price g' of
            Inl err \<Rightarrow> Inl err
          | Inr (cs, g'') \<Rightarrow> Inr (c # cs, g'')))"

text \<open>\<open>None\<close> is Python's \<open>None\<close>, returned for a window of fewer than 20 rows.\<close>

definition generate_predictions ::
  "candle list \<Rightarrow> nat \<Rightarrow> rng \<Rightarrow> py_error + (candle list option \<times> rng)" where
  "generate_predictions historical_data prediction_days g =
     (if length historical_data < 20 then Inr (None, g)
      else let e = estimate historical_data
           in case predict_loop e 0 prediction_days (last_close e) g of
                Inl err \<Rightarrow> Inl err
              | Inr (predictions, g') \<Rightarrow> Inr (Some predictions, g'))"

subsection \<open>generate\_monte\_carlo\_paths\<close>

text \<open>\<open>for _ in range(num_simulations)\<close>: a path is appended when it is truthy,
  that is neither \<open>None\<close> nor the empty list.\<close>

fun simulate_loop ::
  "candle list \<Rightarrow> nat \<Rightarrow> nat \<Rightarrow> rng \<Rightarrow> py_error + (candle list list \<times> rng)" where
  "simulate_loop historical_data prediction_days 0 g = Inr ([], g)"
| "simulate_loop historical_data prediction_days (Suc k) g =
     (case generate_predictions historical_data prediction_days g of
        Inl err \<Rightarrow> Inl err
      | Inr (path_predictions, g') \<Rightarrow>
         (case simulate_loop historical_data prediction_days k g' of
            Inl err \<Rightarrow> Inl err
          | Inr (paths, g'') \<Rightarrow>
             (case path_predictions of
                None \<Rightarrow> Inr (paths, g'')
              | Some p \<Rightarrow> if p = [] then Inr (paths, g'') else Inr (p # paths, g''))))"

definition generate_monte_carlo_paths ::
  "candle list \<Rightarrow> nat \<Rightarrow> nat \<Rightarrow> rng \<Rightarrow> py_error + (candle list list \<times> rng)" where
  "generate_monte_carlo_paths historical_data prediction_days num_simulations g =
     (if length historical_data < 20 then Inr ([], g)
      else simulate_loop historical_data prediction_days num_simulations g)"

subsection \<open>calculate\_percentiles\<close>

text \<open>
  \<open>np.percentile(values, q)\<close> with the default linear method: on the sorted values the
  virtual index is \<open>(n - 1) * q / 100\<close>, the neighbours are its floor and the next index
  (kept within the array), and the result interpolates between them. It is called on the
  \<open>K \<ge> 1\<close> values of a non-empty ensemble only.
\<close>

definition np_percentile :: "real list \<Rightarrow> real \<Rightarrow> real" where
  "np_percentile values q =
     (let arr = sort values;
          n = length arr;
          virtual_index = (real n - 1) * (q / 100);
          previous_index = nat \<lfloor>virtual_index\<rfloor>;
          next_index = min (previous_index + 1) (n - 1);
          gamma = virtual_index - real previous_index
      in arr ! previous_index + (arr ! next_index - arr ! previous_index) * gamma)"

text \<open>\<open>np.std\<close>: the population standard deviation.\<close>

definition np_std :: "real list \<Rightarrow> real" where
  "np_std values = sqrt (mean (map (\<lambda>x. (x - mean values)\<^sup>2) values))"

record pstats =
  p10 :: real
  p25 :: real
  p50 :: real
  p75 :: real
  p90 :: real
  s_mean :: real
  s_std :: real

record day_stats =
  s_open :: pstats
  s_high :: pstats
  s_low :: pstats
  s_close :: pstats

definition metric_stats :: "real list \<Rightarrow> pstats" where
  "metric_stats values =
     \<lparr> p10 = np_percentile values 10,
       p25 = np_percentile values 25,
       p50 = np_percentile values 50,
       p75 = np_percentile values 75,
       p90 = np_percentile values 90,
       s_mean = mean values,
       s_std = np_std values \<rparr>"

text \<open>The order the five percentiles of a field are checked for, and that of a day.\<close>

definition percentiles_ordered :: "pstats \<Rightarrow> bool" where
  "percentiles_ordered s =
     (p10 s \<le> p25 s \<and> p25 s \<le> p50 s \<and> p50 s \<le> p75 s \<and> p75 s \<le> p90 s)"

definition day_stats_ordered :: "day_stats \<Rightarrow> bool" where
  "day_stats_ordered st =
     (percentiles_ordered (s_open st) \<and> percentiles_ordered (s_high st) \<and>
      percentiles_ordered (s_low st) \<and> percentiles_ordered (s_close st))"

text \<open>\<open>[path[day_idx][metric] for path in monte_carlo_paths]\<close>; the index is checked
  apart, since a path shorter than the first raises \<open>IndexError\<close>.\<close>

definition column :: "(candle \<Rightarrow> real) \<Rightarrow> nat \<Rightarrow> candle list list \<Rightarrow> real list" where
  "column metric day_idx paths = map (\<lambda>path. metric (path ! day_idx)) paths"

definition day_in_range :: "nat \<Rightarrow> candle list list \<Rightarrow> bool" where
  "day_in_range day_idx paths = list_all (\<lambda>path. day_idx < length path) paths"

definition stats_of_day :: "candle list list \<Rightarrow> nat \<Rightarrow> day_stats" where
  "stats_of_day paths day_idx =
     \<lparr> s_open = metric_stats (column c_open day_idx paths),
       s_high = metric_stats (column c_high day_idx paths),
       s_low = metric_stats (column c_low day_idx paths),
       s_close = metric_stats (column c_close day_idx paths) \<rparr>"

text \<open>The loop over \<open>day_idx\<close>; \<open>percentiles[date] = day_stats\<close> overwrites an entry of
  the same date.\<close>

fun percentile_loop ::
  "candle list list \<Rightarrow> nat list \<Rightarrow> (date \<rightharpoonup> day_stats) \<Rightarrow> py_error + (date \<rightharpoonup> day_stats)" where
  "percentile_loop paths [] percentiles = Inr percentiles"
| "percentile_loop paths (day_idx # rest) percentiles =
     (if day_in_range day_idx paths
      then percentile_loop paths rest
             (percentiles(c_date (hd paths ! day_idx) \<mapsto> stats_of_day paths day_idx))
      else Inl IndexError)"

definition calculate_percentiles :: "candle list list \<Rightarrow> py_error + (date \<rightharpoonup> day_stats)" where
  "calculate_percentiles monte_carlo_paths =
     (if monte_carlo_paths = [] then Inr Map.empty
      else percentile_loop monte_carlo_paths [0 ..< length (hd monte_carlo_paths)] Map.empty)"

subsection \<open>create\_prediction\_json\<close>

record ticker_info =
  ti_symbol :: string
  ti_generated_at :: string
  ti_model_type :: string
  ti_monte_carlo_runs :: nat
  ti_data_completeness :: string
  ti_chart_compatibility :: string

record metadata =
  md_lookback_start :: date
  md_lookback_end :: date
  md_lookback_days :: nat
  md_prediction_start :: date
  md_prediction_end :: date
  md_prediction_days :: nat
  md_monte_carlo_runs :: nat
  md_data_completeness :: string

record chart_data =
  historical_candlesticks :: "candle list"
  predicted_candlesticks :: "candle list"
  monte_carlo_paths :: "candle list list"
  prediction_percentiles :: "date \<rightharpoonup> day_stats"
  actual_candlesticks :: "candle list"

text \<open>\<open>ss_volatility = None\<close> is a NaN.\<close>

record summary_stats =
  ss_overall_score :: int
  ss_prediction_quality :: string
  ss_volatility :: "real option"
  ss_monte_carlo_runs :: nat

record prediction_json =
  pj_ticker_info :: ticker_info
  pj_ticker :: string
  pj_metadata :: metadata
  pj_chart_data :: chart_data
  pj_summary_stats :: summary_stats

definition MONTE_CARLO_RUNS :: nat where "MONTE_CARLO_RUNS = 10"
definition PREDICTION_DAYS :: nat where "PREDICTION_DAYS = 5"
definition LOOKBACK_DAYS :: nat where "LOOKBACK_DAYS = 120"

text \<open>\<open>LOOKBACK_END = "2025-10-03"\<close>, a Friday, as an ordinal.\<close>

definition LOOKBACK_END :: date where "LOOKBACK_END = 739527"

definition mean_pred :: "candle list list \<Rightarrow> nat \<Rightarrow> candle" where
  "mean_pred paths day_idx =
     \<lparr> c_date = c_date (hd paths ! day_idx),
       c_open = mean (column c_open day_idx paths),
       c_high = mean (column c_high day_idx paths),
       c_low = mean (column c_low day_idx paths),
       c_close = mean (column c_close day_idx paths),
       c_volume = mean (column c_volume day_idx paths) \<rparr>"

fun mean_loop :: "candle list list \<Rightarrow> nat list \<Rightarrow> py_error + candle list" where
  "mean_loop paths [] = Inr []"
| "mean_loop paths (day_idx # rest) =
     (if day_in_range day_idx paths
      then (case mean_loop paths rest of
              Inl err \<Rightarrow> Inl err
            | Inr cs \<Rightarrow> Inr (mean_pred paths day_idx # cs))
      else Inl IndexError)"

definition mean_predictions :: "candle list \<Rightarrow> candle list list \<Rightarrow> py_error + candle list" where
  "mean_predictions predictions paths =
     (if paths \<noteq> [] then mean_loop paths [0 ..< length (hd paths)]
      else Inr predictions)"

text \<open>\<open>returns.std() * np.sqrt(252) * 100\<close>, NaN when the standard deviation is.\<close>

definition annualized_volatility :: "candle list \<Rightarrow> real option" where
  "annualized_volatility historical_data =
     (let returns = pct_change (map c_close historical_data)
      in map_option (\<lambda>s. s * sqrt 252 * 100) (pd_std returns))"

text \<open>\<open>"GOOD" if volatility < 40 else "MODERATE"\<close>; a comparison with NaN is false.\<close>

definition quality_label :: "real option \<Rightarrow> string" where
  "quality_label v = (case v of None \<Rightarrow> ''MODERATE''
                      | Some x \<Rightarrow> if x < 40 then ''GOOD'' else ''MODERATE'')"

text \<open>
  \<open>now\<close> is \<open>datetime.now().isoformat()\<close> and \<open>jitter\<close> the value that
  \<open>np.random.randint(-5, 10)\<close> returns. Reading \<open>iloc[0]\<close> of an empty window or
  \<open>mean_predictions[0]\<close> of an empty forecast raises \<open>IndexError\<close>.
\<close>

definition create_prediction_json ::
  "string \<Rightarrow> candle list \<Rightarrow> candle list \<Rightarrow> candle list list \<Rightarrow> string \<Rightarrow> int
     \<Rightarrow> py_error + prediction_json" where
  "create_prediction_json ticker historical_data predictions paths now jitter =
     (case mean_predictions predictions paths of
        Inl err \<Rightarrow> Inl err
      | Inr mean_preds \<Rightarrow>
         (let vol = annualized_volatility historical_data
          in case (if paths \<noteq> [] then calculate_percentiles paths else Inr Map.empty) of
               Inl err \<Rightarrow> Inl err
             | Inr percentiles \<Rightarrow>
                if historical_data = [] \<or> mean_preds = [] then Inl IndexError
                else Inr
                  \<lparr> pj_ticker_info =
                      \<lparr> ti_symbol = ticker,
                        ti_generated_at = now,
                        ti_model_type = ''kronos-120d-5d-montecarlo'',
                        ti_monte_carlo_runs = MONTE_CARLO_RUNS,
                        ti_data_completeness = ''full_120_day_history_with_monte_carlo'',
                        ti_chart_compatibility = ''candlestick_ready'' \<rparr>,
                    pj_ticker = ticker,
                    pj_metadata =
                      \<lparr> md_lookback_start = c_date (hd historical_data),
                        md_lookback_end = c_date (last historical_data),
                        md_lookback_days = length historical_data,
                        md_prediction_start = c_date (hd mean_preds),
                        md_prediction_end = c_date (last mean_preds),
                        md_prediction_days = length mean_preds,
                        md_monte_carlo_runs = MONTE_CARLO_RUNS,
                        md_data_completeness = ''full_ohlcv_with_monte_carlo'' \<rparr>,
                    pj_chart_data =
                      \<lparr> historical_candlesticks = historical_data,
                        predicted_candlesticks = mean_preds,
                        monte_carlo_paths = paths,
                        prediction_percentiles = percentiles,
                        actual_candlesticks = [] \<rparr>,
                    pj_summary_stats =
                      \<lparr> ss_overall_score = min 95 (max 70 (85 + jitter)),
                        ss_prediction_quality = quality_label vol,
                        ss_volatility = map_option py_round2 vol,
                        ss_monte_carlo_runs = MONTE_CARLO_RUNS \<rparr> \<rparr>))"

subsection \<open>process\_ticker\<close>

text \<open>
  The files the script touches: the parquet store it reads (a ticker with no entry has no
  readable file, so \<open>load_parquet_data\<close> is \<open>None\<close>) and the prediction files it writes.
\<close>

record files =
  parquet :: "string \<rightharpoonup> candle list"
  prediction_files :: "string \<rightharpoonup> prediction_json"

definition load_parquet_data :: "files \<Rightarrow> string \<Rightarrow> candle list option" where
  "load_parquet_data fs ticker = parquet fs ticker"

definition get_lookback_data :: "candle list \<Rightarrow> date \<Rightarrow> nat \<Rightarrow> candle list" where
  "get_lookback_data df end_date lookback_days =
     tail lookback_days (filter (\<lambda>row. c_date row \<le> end_date) df)"

text \<open>The result is the returned flag with the files and the generator afterwards; no
  exception is caught.\<close>

definition process_ticker ::
  "string \<Rightarrow> string \<Rightarrow> int \<Rightarrow> files \<Rightarrow> rng \<Rightarrow> py_error + (bool \<times> files \<times> rng)" where
  "process_ticker ticker now jitter fs g =
     (case load_parquet_data fs ticker of
        None \<Rightarrow> Inr (False, fs, g)
      | Some df \<Rightarrow>
         (let historical = get_lookback_data df LOOKBACK_END LOOKBACK_DAYS
          in if length historical < 20 then Inr (False, fs, g)
             else
               (case generate_predictions historical PREDICTION_DAYS g of
                  Inl err \<Rightarrow> Inl err
                | Inr (predictions, g1) \<Rightarrow>
                   (case predictions of
                      None \<Rightarrow> Inr (False, fs, g1)
                    | Some preds \<Rightarrow>
                       if preds = [] then Inr (False, fs, g1)
                       else
                         (case generate_monte_carlo_paths historical PREDICTION_DAYS
                                 MONTE_CARLO_RUNS g1 of
                            Inl err \<Rightarrow> Inl err
                          | Inr (paths, g2) \<Rightarrow>
                             (case create_prediction_json ticker historical preds paths now jitter of
                                Inl err \<Rightarrow> Inl err
                              | Inr prediction_json \<Rightarrow>
                                 Inr (True,
                                      fs\<lparr>prediction_files :=
                                           (prediction_files fs)(ticker \<mapsto> prediction_json)\<rparr>,
                                      g2)))))))"

section \<open>Trend buckets\<close>

text \<open>The three scripts that classify a percentage change use the same chain of tests;
  the bucket is named by a constructor here (a list to append to, a counter or a string in
  the sources).\<close>

datatype trend = Bullish | Bearish | Neutral

section \<open>fix\_qqq\_predictions.py\<close>

text \<open>The \<open>while len(predicted_dates) < 5\<close> loop: advance one day, keep a weekday.\<close>

function predicted_dates_loop :: "date \<Rightarrow> date list \<Rightarrow> date list" where
  "predicted_dates_loop current_date predicted_dates =
     (if length predicted_dates < 5
      then (if weekday (current_date + 1) < 5
            then predicted_dates_loop (current_date + 1) (predicted_dates @ [current_date + 1])
            else predicted_dates_loop (current_date + 1) predicted_dates)
      else predicted_dates)"
  by pat_completeness auto
termination
proof (relation "measures [\<lambda>(c, ds). 5 - length ds, \<lambda>(c, ds). nat ((7 - weekday (c + 1)) mod 7)]")
  show "wf (measures [\<lambda>(c, ds). 5 - length ds, \<lambda>(c :: date, ds :: date list). nat ((7 - weekday (c + 1)) mod 7)])"
    by simp
next
  fix c :: date and ds :: "date list"
  assume "length ds < 5"
  then show "((c + 1, ds @ [c + 1]), (c, ds))
      \<in> measures [\<lambda>(c, ds). 5 - length ds, \<lambda>(c, ds). nat ((7 - weekday (c + 1)) mod 7)]"
    by auto
next
  fix c :: date and ds :: "date list"
  assume "\<not> weekday (c + 1) < 5"
  then have "(7 - weekday (c + 1 + 1)) mod 7 < (7 - weekday (c + 1)) mod 7 \<and>
             0 \<le> (7 - weekday (c + 1 + 1)) mod 7"
    unfolding weekday_def by presburger
  then show "((c + 1, ds), (c, ds))
      \<in> measures [\<lambda>(c, ds). 5 - length ds, \<lambda>(c, ds). nat ((7 - weekday (c + 1)) mod 7)]"
    by simp
qed

declare predicted_dates_loop.simps [simp del]

definition predicted_dates :: "date \<Rightarrow> date list" where
  "predicted_dates last_day = predicted_dates_loop last_day []"

definition qqq_direction :: "real \<Rightarrow> trend" where
  "qqq_direction price_change_pct =
     (if price_change_pct > 1 then Bullish
      else if price_change_pct < - 1 then Bearish
      else Neutral)"

section \<open>generate\_stats.py\<close>

definition stats_direction :: "real \<Rightarrow> trend" where
  "stats_direction pct =
     (if pct > 1.0 then Bullish
      else if pct < - 1.0 then Bearish
      else Neutral)"

section \<open>data/process\_candlestick.py\<close>

subsection \<open>process\_ohlcv\_file\<close>

text \<open>
  The parsed prediction file as the reader sees it: a key that may be absent is an option,
  read with \<open>dict.get(key, default)\<close>. Candles are typed, so a candle without a
  \<open>close\<close> or \<open>volume\<close> key is not an input of the model.
\<close>

record ohlcv_chart =
  j_historical_candlesticks :: "candle list option"
  j_actual_candlesticks :: "candle list option"
  j_monte_carlo_simulations :: "candle list list option"

record ohlcv_summary =
  j_prediction_quality :: "string option"
  j_overall_score :: "real option"

record ohlcv_file =
  j_chart_data :: "ohlcv_chart option"
  j_summary_stats :: "ohlcv_summary option"

definition get_or :: "'a \<Rightarrow> 'a option \<Rightarrow> 'a" where
  "get_or dflt v = (case v of None \<Rightarrow> dflt | Some x \<Rightarrow> x)"

text \<open>\<open>statistics.stdev\<close>: the sample standard deviation, called on two values or more.\<close>

definition statistics_stdev :: "real list \<Rightarrow> real" where
  "statistics_stdev xs = sqrt (sum_list (map (\<lambda>x. (x - mean xs)\<^sup>2) xs) / (real (length xs) - 1))"

text \<open>Python's \<open>/\<close> on numbers raises on a zero divisor.\<close>

definition py_div :: "real \<Rightarrow> real \<Rightarrow> py_error + real" where
  "py_div a b = (if b = 0 then Inl ZeroDivisionError else Inr (a / b))"

record processed =
  pr_ticker :: string
  pr_historical_candlesticks :: "candle list"
  pr_actual_candlesticks :: "candle list"
  pr_monte_carlo_simulations :: "candle list list"
  pr_latest_price :: "real option"
  pr_price_change :: real
  pr_price_change_percent :: real
  pr_average_volume :: real
  pr_volatility :: real
  pr_data_type :: string
  pr_prediction_quality :: string
  pr_overall_score :: real

text \<open>The body of the \<open>try\<close>, after the test for \<open>chart_data\<close>.\<close>

definition ohlcv_body :: "ohlcv_file \<Rightarrow> ohlcv_chart \<Rightarrow> string \<Rightarrow> py_error + processed" where
  "ohlcv_body data chart ticker =
     (let historical = get_or [] (j_historical_candlesticks chart);
          actual = get_or [] (j_actual_candlesticks chart);
          latest_price =
            (if actual \<noteq> [] then Some (c_close (last actual))
             else if historical \<noteq> [] then Some (c_close (last historical))
             else None)
      in case (if historical \<noteq> [] \<and> actual \<noteq> []
               then (let start_price = c_close (last historical);
                         end_price = c_close (last actual);
                         price_change = end_price - start_price
                     in case py_div price_change start_price of
                          Inl err \<Rightarrow> Inl err
                        | Inr q \<Rightarrow> Inr (price_change, q * 100))
               else Inr (0, 0)) of
           Inl err \<Rightarrow> Inl err
         | Inr (price_change, price_change_percent) \<Rightarrow>
            (let volume_data =
                   (if actual \<noteq> [] then map c_volume (tail 5 actual)
                    else if historical \<noteq> [] then map c_volume (tail 5 historical)
                    else []);
                 avg_volume = (if volume_data \<noteq> [] then mean volume_data else 0)
             in case (if actual \<noteq> []
                      then (let prices = map c_close (tail 10 actual)
                            in if length prices > 1
                               then (case py_div (statistics_stdev prices) (mean prices) of
                                       Inl err \<Rightarrow> Inl err
                                     | Inr q \<Rightarrow> Inr (q * 100))
                               else Inr 0)
                      else Inr 0) of
                  Inl err \<Rightarrow> Inl err
                | Inr vol \<Rightarrow>
                   Inr \<lparr> pr_ticker = ticker,
                         pr_historical_candlesticks = historical,
                         pr_actual_candlesticks = actual,
                         pr_monte_carlo_simulations = get_or [] (j_monte_carlo_simulations chart),
                         pr_latest_price = latest_price,
                         pr_price_change = price_change,
                         pr_price_change_percent = price_change_percent,
                         pr_average_volume = avg_volume,
                         pr_volatility = vol,
                         pr_data_type = ''ohlcv_complete'',
                         pr_prediction_quality =
                           get_or ''unknown''
                             (j_prediction_quality (get_or \<lparr>j_prediction_quality = None, j_overall_score = None\<rparr> (j_summary_stats data))),
                         pr_overall_score =
                           get_or 0
                             (j_overall_score (get_or \<lparr>j_prediction_quality = None, j_overall_score = None\<rparr> (j_summary_stats data))) \<rparr>))"

text \<open>\<open>except Exception\<close> turns every error of the body into \<open>None\<close>.\<close>

definition process_ohlcv_file :: "ohlcv_file \<Rightarrow> string \<Rightarrow> processed option" where
  "process_ohlcv_file data ticker =
     (case j_chart_data data of
        None \<Rightarrow> None
      | Some chart \<Rightarrow>
         (case ohlcv_body data chart ticker of
            Inl err \<Rightarrow> None
          | Inr result \<Rightarrow> Some result))"

subsection \<open>update\_market\_overview\<close>

text \<open>An entry of a ranking list: the ticker, the metric (\<open>change_percent\<close>, \<open>volume\<close>
  or \<open>volatility\<close>) and the latest price.\<close>

record rank_entry =
  re_ticker :: string
  re_metric :: real
  re_price :: "real option"

record market_overview =
  total_tickers :: nat
  bullish_count :: nat
  bearish_count :: nat
  neutral_count :: nat
  top_gainers :: "rank_entry list"
  top_losers :: "rank_entry list"
  highest_volume :: "rank_entry list"
  most_volatile :: "rank_entry list"
  last_updated :: "string option"

definition categorize_trend :: "real \<Rightarrow> trend" where
  "categorize_trend price_change_pct =
     (if price_change_pct > 1 then Bullish
      else if price_change_pct < - 1 then Bearish
      else Neutral)"

text \<open>The lists the loop over \<open>self.candlestick_data.items()\<close> fills.\<close>

record tally =
  bullish :: "string list"
  bearish :: "string list"
  neutral :: "string list"
  gainers :: "rank_entry list"
  volume_leaders :: "rank_entry list"
  volatile_stocks :: "rank_entry list"

text \<open>The three dicts appended for a ticker.\<close>

definition gainer_entry :: "string \<times> processed \<Rightarrow> rank_entry" where
  "gainer_entry item =
     \<lparr>re_ticker = fst item, re_metric = pr_price_change_percent (snd item),
      re_price = pr_latest_price (snd item)\<rparr>"

definition volume_entry :: "string \<times> processed \<Rightarrow> rank_entry" where
  "volume_entry item =
     \<lparr>re_ticker = fst item, re_metric = pr_average_volume (snd item),
      re_price = pr_latest_price (snd item)\<rparr>"

definition volatile_entry :: "string \<times> processed \<Rightarrow> rank_entry" where
  "volatile_entry item =
     \<lparr>re_ticker = fst item, re_metric = pr_volatility (snd item),
      re_price = pr_latest_price (snd item)\<rparr>"

definition tally_step :: "tally \<Rightarrow> string \<times> processed \<Rightarrow> tally" where
  "tally_step t item =
     (let ticker = fst item;
          price_change_pct = pr_price_change_percent (snd item);
          t' = (case categorize_trend price_change_pct of
                  Bullish \<Rightarrow> t\<lparr>bullish := bullish t @ [ticker]\<rparr>
                | Bearish \<Rightarrow> t\<lparr>bearish := bearish t @ [ticker]\<rparr>
                | Neutral \<Rightarrow> t\<lparr>neutral := neutral t @ [ticker]\<rparr>)
      in t'\<lparr> gainers := gainers t' @ [gainer_entry item],
             volume_leaders := volume_leaders t' @ [volume_entry item],
             volatile_stocks := volatile_stocks t' @ [volatile_entry item] \<rparr>)"

definition tally_all :: "(string \<times> processed) list \<Rightarrow> tally" where
  "tally_all candlestick_data =
     foldl tally_step
       \<lparr>bullish = [], bearish = [], neutral = [], gainers = [], volume_leaders = [], volatile_stocks = []\<rparr>
       candlestick_data"

text \<open>
  \<open>sorted(xs, key=k)\<close> is a stable ascending sort. \<open>xs.sort(key=k, reverse=True)\<close>
  reverses the list, sorts it stably and reverses the result, so entries of equal key keep
  their order.
\<close>

definition py_sorted :: "('a \<Rightarrow> real) \<Rightarrow> 'a list \<Rightarrow> 'a list" where
  "py_sorted k xs = sort_key k xs"

definition py_sorted_reverse :: "('a \<Rightarrow> real) \<Rightarrow> 'a list \<Rightarrow> 'a list" where
  "py_sorted_reverse k xs = rev (sort_key k (rev xs))"

text \<open>
  \<open>self.candlestick_data\<close> is a dict: its items in insertion order, the tickers distinct.
  The overview is replaced, or kept when there is no ticker.
\<close>

definition update_market_overview ::
  "(string \<times> processed) list \<Rightarrow> market_overview \<Rightarrow> string \<Rightarrow> market_overview" where
  "update_market_overview candlestick_data overview now =
     (if candlestick_data = [] then overview
      else
        (let t = tally_all candlestick_data;
             gainers_sorted = py_sorted_reverse re_metric (gainers t);
             losers = take 10 (py_sorted re_metric gainers_sorted);
             volume_sorted = py_sorted_reverse re_metric (volume_leaders t);
             volatile_sorted = py_sorted_reverse re_metric (volatile_stocks t)
         in \<lparr> total_tickers = length candlestick_data,
              bullish_count = length (bullish t),
              bearish_count = length (bearish t),
              neutral_count = length (neutral t),
              top_gainers = take 10 gainers_sorted,
              top_losers = losers,
              highest_volume = take 10 volume_sorted,
              most_volatile = take 10 volatile_sorted,
              last_updated = Some now \<rparr>))"

section \<open>Sample inputs\<close>

text \<open>A window of the 20 trading days from Monday 2025-09-08 to Friday 2025-10-03
  (\<open>LOOKBACK_END\<close>), every close at 100, and a generator whose draws are all \<open>1/2\<close>.\<close>

definition flat_candle :: "date \<Rightarrow> candle" where
  "flat_candle d =
     \<lparr>c_date = d, c_open = 100, c_high = 101, c_low = 99, c_close = 100, c_volume = 5000\<rparr>"

definition october_window :: "candle list" where
  "october_window = map flat_candle
     [739502, 739503, 739504, 739505, 739506,
      739509, 739510, 739511, 739512, 739513,
      739516, 739517, 739518, 739519, 739520,
      739523, 739524, 739525, 739526, 739527]"

definition half_draws :: rng where
  "half_draws = \<lparr>draws = \<lambda>k. 1 / 2, pos = 0\<rparr>"

text \<open>The October window with a halted day in the middle: row 10 has a close of 0.\<close>

definition halted_window :: "candle list" where
  "halted_window =
     october_window[10 := \<lparr>c_date = 739516, c_open = 0, c_high = 0, c_low = 0, c_close = 0,
                             c_volume = 0\<rparr>]"

text \<open>The overview that \<open>__init__\<close> sets, a prediction file as
  \<open>create_prediction_json\<close> leaves it (no actual candles yet) and the record
  \<open>process_ohlcv_file\<close> makes of it.\<close>

definition initial_overview :: market_overview where
  "initial_overview =
     \<lparr> total_tickers = 0, bullish_count = 0, bearish_count = 0, neutral_count = 0,
       top_gainers = [], top_losers = [], highest_volume = [], most_volatile = [],
       last_updated = None \<rparr>"

definition fresh_chart :: ohlcv_chart where
  "fresh_chart =
     \<lparr> j_historical_candlesticks = Some october_window,
       j_actual_candlesticks = Some [],
       j_monte_carlo_simulations = None \<rparr>"

definition fresh_file :: ohlcv_file where
  "fresh_file = \<lparr> j_chart_data = Some fresh_chart, j_summary_stats = None \<rparr>"


definition fresh_record :: "string \<Rightarrow> processed" where
  "fresh_record t =
     \<lparr> pr_ticker = t,
       pr_historical_candlesticks = october_window,
       pr_actual_candlesticks = [],
       pr_monte_carlo_simulations = [],
       pr_latest_price = Some 100,
       pr_price_change = 0,
       pr_price_change_percent = 0,
       pr_average_volume = 5000,
       pr_volatility = 0,
       pr_data_type = ''ohlcv_complete'',
       pr_prediction_quality = ''unknown'',
       pr_overall_score = 0 \<rparr>"

text \<open>Two such records, inserted in the order ZM, AAPL.\<close>

definition two_fresh :: "(string \<times> processed) list" where
  "two_fresh = [(''ZM'', fresh_record ''ZM''), (''AAPL'', fresh_record ''AAPL'')]"

text \<open>An ensemble of two one-day paths.\<close>

definition two_paths :: "candle list list" where
  "two_paths =
     [[\<lparr>c_date = 739530, c_open = 101, c_high = 104, c_low = 100, c_close = 102, c_volume = 5000\<rparr>],
      [\<lparr>c_date = 739530, c_open = 103, c_high = 108, c_low = 102, c_close = 106, c_volume = 5000\<rparr>]]"

text \<open>A window of 29 trading days that ends on 2025-10-03: the close is 900 on the first
  28 days and 901 on the last.\<close>

definition step_candle :: "real \<Rightarrow> date \<Rightarrow> candle" where
  "step_candle c d =
     \<lparr>c_date = d, c_open = c, c_high = c + 1, c_low = c - 1, c_close = c, c_volume = 5000\<rparr>"

definition jump_window :: "candle list" where
  "jump_window = map (step_candle 900)
     [739489, 739490, 739491, 739492,
      739495, 739496, 739497, 739498, 739499,
      739502, 739503, 739504, 739505, 739506,
      739509, 739510, 739511, 739512, 739513,
      739516, 739517, 739518, 739519, 739520,
      739523, 739524, 739525, 739526] @ [step_candle 901 739527]"

text \<open>A parquet store with the full window for one ticker and five rows for another, and
  no prediction file yet.\<close>

definition sample_files :: files where
  "sample_files =
     \<lparr> parquet = [''AAPL'' \<mapsto> october_window, ''NEWCO'' \<mapsto> take 5 october_window],
       prediction_files = Map.empty \<rparr>"

section \<open>Calendar walk\<close>

lemma skip_weekends_weekday: "weekday d < 5 \<Longrightarrow> skip_weekends d = d"
  by (simp add: skip_weekends.simps [of d])

lemma skip_weekends_sunday: "weekday d = 6 \<Longrightarrow> skip_weekends d = d + 1"
  by (simp add: skip_weekends.simps [of d] skip_weekends.simps [of "d + 1"] weekday_def)
     presburger

lemma skip_weekends_saturday: "weekday d = 5 \<Longrightarrow> skip_weekends d = d + 2"
proof -
  assume h: "weekday d = 5"
  then have "weekday (d + 1) = 6" by (simp add: weekday_def) presburger
  then have "skip_weekends (d + 1) = d + 1 + 1" by (rule skip_weekends_sunday)
  with h show ?thesis by (simp add: skip_weekends.simps [of d])
qed

section \<open>Returns and estimates\<close>

lemma pct_change_finite:
  "0 \<notin> set (butlast xs) \<Longrightarrow>
   pct_change xs = map Finite (map2 (\<lambda>a b. b / a - 1) (butlast xs) (tl xs))"
  by (induction xs rule: pct_change.induct) simp_all

lemma finite_values_map: "finite_values (map Finite xs) = Some xs"
  by (induction xs) simp_all

lemma tail_map: "tail n (map f xs) = map f (tail n xs)"
  by (simp add: tail_def drop_map)

lemma length_tail: "length (tail n xs) = min n (length xs)"
  by (simp add: tail_def)

lemma pd_mean_finite: "xs \<noteq> [] \<Longrightarrow> pd_mean (map Finite xs) = Some (mean xs)"
  by (simp add: pd_mean_def finite_values_map)

lemma pd_std_finite: "2 \<le> length xs \<Longrightarrow> pd_std (map Finite xs) = Some (sample_std xs)"
  by (simp add: pd_std_def finite_values_map)

lemma estimate_finite:
  assumes "3 \<le> length h" and "0 \<notin> set (butlast (map c_close h))"
  shows "\<exists>rm mr rv. recent_mean (estimate h) = Some rm \<and> mean_return (estimate h) = Some mr \<and>
           recent_volatility (estimate h) = Some rv"
proof -
  define rs where "rs = map2 (\<lambda>a b. b / a - 1) (butlast (map c_close h)) (tl (map c_close h))"
  have r: "pct_change (map c_close h) = map Finite rs"
    unfolding rs_def using assms(2) by (rule pct_change_finite)
  have l: "2 \<le> length rs" using assms(1) by (simp add: rs_def)
  then have lt: "2 \<le> length (tail 20 rs)" by (simp add: length_tail)
  have ne: "rs \<noteq> []" "tail 20 rs \<noteq> []" using l lt by auto
  show ?thesis
    using pd_mean_finite [OF ne(1)] pd_mean_finite [OF ne(2)] pd_std_finite [OF lt]
    by (simp add: estimate_def Let_def r tail_map)
qed

section \<open>The path simulator keeps every candle consistent\<close>

lemma round_half_even_mono: "x \<le> y \<Longrightarrow> round_half_even x \<le> round_half_even y"
proof -
  assume xy: "x \<le> y"
  have fl: "\<lfloor>x\<rfloor> \<le> \<lfloor>y\<rfloor>" using xy by (rule floor_mono)
  have bx: "round_half_even x \<le> \<lfloor>x\<rfloor> + 1" and lx: "\<lfloor>x\<rfloor> \<le> round_half_even x"
    by (simp_all add: round_half_even_def Let_def)
  have by': "\<lfloor>y\<rfloor> \<le> round_half_even y"
    by (simp add: round_half_even_def Let_def)
  show ?thesis
  proof (cases "\<lfloor>x\<rfloor> = \<lfloor>y\<rfloor>")
    case True
    then have "x - of_int \<lfloor>x\<rfloor> \<le> y - of_int \<lfloor>y\<rfloor>" using xy by simp
    then show ?thesis using True
      by (auto simp: round_half_even_def Let_def)
  next
    case False
    then have "\<lfloor>x\<rfloor> + 1 \<le> \<lfloor>y\<rfloor>" using fl by linarith
    then show ?thesis using bx by' by linarith
  qed
qed

lemma py_round2_mono: "x \<le> y \<Longrightarrow> py_round2 x \<le> py_round2 y"
  by (simp add: py_round2_def round_half_even_mono divide_right_mono)

lemma predict_day_finite_candle:
  "ohlc_ok (fst (predict_day_finite rm mr rv e i p g)) \<and>
   c_date (fst (predict_day_finite rm mr rv e i p g)) = skip_weekends (last_date e + (int i + 1))"
  by (simp add: predict_day_finite_def Let_def ohlc_ok_def py_round2_mono split: prod.splits)

lemma predict_day_Inr:
  assumes "predict_day e i p g = Inr (c, p', g')"
  shows "ohlc_ok c \<and> c_date c = skip_weekends (last_date e + (int i + 1))"
proof -
  from assms obtain rm mr rv where "predict_day_finite rm mr rv e i p g = (c, p', g')"
    by (auto simp: predict_day_def split: option.splits)
  then show ?thesis using predict_day_finite_candle [of rm mr rv e i p g] by simp
qed

lemma predict_loop_Inr:
  "predict_loop e i n p g = Inr (cs, g') \<Longrightarrow>
   list_all ohlc_ok cs \<and> length cs = n \<and>
   map c_date cs = map (\<lambda>k. skip_weekends (last_date e + (int k + 1))) [i ..< i + n]"
proof (induction n arbitrary: i p g cs g')
  case 0
  then show ?case by simp
next
  case (Suc n)
  from Suc.prems obtain c p1 g1 cs1 where
    d: "predict_day e i p g = Inr (c, p1, g1)" and
    l: "predict_loop e (Suc i) n p1 g1 = Inr (cs1, g')" and
    cs: "cs = c # cs1"
    by (auto split: sum.splits prod.splits)
  have u: "[i ..< i + Suc n] = i # [Suc i ..< Suc i + n]"
    by (simp add: upt_conv_Cons del: upt_Suc)
  show ?case
    unfolding u cs using Suc.IH [OF l] predict_day_Inr [OF d] by simp
qed

lemma predict_loop_total:
  assumes "recent_mean e = Some rm" and "mean_return e = Some mr" and "recent_volatility e = Some rv"
  shows "\<exists>cs g'. predict_loop e i n p g = Inr (cs, g')"
proof (induction n arbitrary: i p g)
  case 0
  then show ?case by simp
next
  case (Suc n)
  obtain c p1 g1 where d: "predict_day_finite rm mr rv e i p g = (c, p1, g1)"
    by (cases "predict_day_finite rm mr rv e i p g") auto
  then have "predict_day e i p g = Inr (c, p1, g1)"
    using assms by (simp add: predict_day_def)
  moreover obtain cs g' where "predict_loop e (Suc i) n p1 g1 = Inr (cs, g')"
    using Suc.IH by blast
  ultimately show ?case by simp
qed

lemma predict_loop_raises:
  assumes "recent_mean e = None \<or> mean_return e = None \<or> recent_volatility e = None"
  shows "predict_loop e i (Suc n) p g = Inl OverflowError"
proof -
  have "predict_day e i p g = Inl OverflowError"
    using assms by (auto simp: predict_day_def split: option.splits)
  then show ?thesis by simp
qed

lemma generate_predictions_None:
  "length h < 20 \<Longrightarrow> generate_predictions h n g = Inr (None, g)"
  by (simp add: generate_predictions_def)

lemma generate_predictions_not_None:
  "20 \<le> length h \<Longrightarrow> generate_predictions h n g \<noteq> Inr (None, g')"
  by (auto simp: generate_predictions_def Let_def split: sum.splits)

lemma generate_predictions_Inr:
  assumes "generate_predictions h n g = Inr (Some preds, g')"
  shows "list_all ohlc_ok preds \<and> length preds = n \<and>
         map c_date preds = map (\<lambda>k. skip_weekends (c_date (last h) + (int k + 1))) [0 ..< n]"
proof -
  from assms have "predict_loop (estimate h) 0 n (last_close (estimate h)) g = Inr (preds, g')"
    by (auto simp: generate_predictions_def Let_def split: if_splits sum.splits)
  from predict_loop_Inr [OF this] show ?thesis
    by (simp add: estimate_def Let_def)
qed

lemma generate_predictions_total:
  assumes "20 \<le> length h" and "0 \<notin> set (butlast (map c_close h))"
  shows "\<exists>preds g'. generate_predictions h n g = Inr (Some preds, g')"
proof -
  from assms have "3 \<le> length h" by simp
  from estimate_finite [OF this assms(2)] obtain rm mr rv where
    "recent_mean (estimate h) = Some rm" "mean_return (estimate h) = Some mr"
    "recent_volatility (estimate h) = Some rv" by blast
  from predict_loop_total [OF this, of 0 n "last_close (estimate h)" g]
  obtain cs g' where "predict_loop (estimate h) 0 n (last_close (estimate h)) g = Inr (cs, g')"
    by blast
  then show ?thesis using assms(1) by (simp add: generate_predictions_def Let_def)
qed

lemma generate_predictions_raises:
  assumes "20 \<le> length h"
    and "recent_mean (estimate h) = None \<or> mean_return (estimate h) = None \<or>
         recent_volatility (estimate h) = None"
  shows "generate_predictions h (Suc n) g = Inl OverflowError"
  using assms(1) predict_loop_raises [OF assms(2), of 0 n "last_close (estimate h)" g]
  by (simp add: generate_predictions_def Let_def)

lemma simulate_loop_Inr:
  "simulate_loop h n k g = Inr (paths, g') \<Longrightarrow>
   list_all (\<lambda>p. list_all ohlc_ok p \<and> length p = n \<and> p \<noteq> []) paths"
proof (induction k arbitrary: g paths g')
  case 0
  then show ?case by simp
next
  case (Suc k)
  from Suc.prems obtain r g1 ps where
    a: "generate_predictions h n g = Inr (r, g1)" and
    b: "simulate_loop h n k g1 = Inr (ps, g')" and
    c: "paths = (case r of None \<Rightarrow> ps | Some p \<Rightarrow> if p = [] then ps else p # ps)"
    by (auto split: sum.splits prod.splits option.splits if_splits)
  have ih: "list_all (\<lambda>p. list_all ohlc_ok p \<and> length p = n \<and> p \<noteq> []) ps"
    by (rule Suc.IH [OF b])
  show ?case
  proof (cases r)
    case None
    then show ?thesis using c ih by simp
  next
    case (Some p)
    then have "list_all ohlc_ok p \<and> length p = n"
      using generate_predictions_Inr [of h n g p g1] a by simp
    then show ?thesis using c ih Some by simp
  qed
qed

lemma simulate_loop_total:
  assumes "\<And>g. \<exists>preds g'. generate_predictions h n g = Inr (Some preds, g')"
  shows "\<exists>paths g'. simulate_loop h n k g = Inr (paths, g')"
proof (induction k arbitrary: g)
  case 0
  then show ?case by simp
next
  case (Suc k)
  obtain preds g1 where a: "generate_predictions h n g = Inr (Some preds, g1)"
    using assms by blast
  obtain ps g2 where b: "simulate_loop h n k g1 = Inr (ps, g2)"
    using Suc.IH by blast
  show ?case using a b by simp
qed

lemma generate_monte_carlo_paths_shape:
  "generate_monte_carlo_paths h n k g = Inr (paths, g') \<Longrightarrow>
   list_all (\<lambda>p. list_all ohlc_ok p \<and> length p = n \<and> p \<noteq> []) paths"
  using simulate_loop_Inr [of h n k g paths g']
  by (auto simp: generate_monte_carlo_paths_def split: if_splits)

lemma generate_monte_carlo_paths_total:
  assumes "0 \<notin> set (butlast (map c_close h))"
  shows "\<exists>paths g'. generate_monte_carlo_paths h n k g = Inr (paths, g')"
proof (cases "length h < 20")
  case True
  then show ?thesis by (simp add: generate_monte_carlo_paths_def)
next
  case False
  then have "20 \<le> length h" by simp
  from simulate_loop_total [of h n k g, OF generate_predictions_total [OF this assms]]
  show ?thesis using False by (simp add: generate_monte_carlo_paths_def)
qed

text \<open>
  C1. Whatever the window, the horizon and the random draws, every path that
  \<open>generate_predictions\<close> returns has the requested length, and every candle of it, after
  the clamp and the rounding to two decimals, has \<open>low \<le> open \<le> high\<close> and
  \<open>low \<le> close \<le> high\<close>; the same holds for every path of a Monte Carlo ensemble that
  is returned. For a window of at least 20 rows in which no close that a return divides by
  is 0, both functions do return.
\<close>

theorem predicted_candles_ohlc:
  "(\<forall>preds g'. generate_predictions historical_data n g = Inr (Some preds, g') \<longrightarrow>
      length preds = n \<and> list_all ohlc_ok preds) \<and>
   (\<forall>paths g'. generate_monte_carlo_paths historical_data n k g = Inr (paths, g') \<longrightarrow>
      list_all (list_all ohlc_ok) paths) \<and>
   (20 \<le> length historical_data \<and> 0 \<notin> set (butlast (map c_close historical_data)) \<longrightarrow>
      (\<exists>preds g'. generate_predictions historical_data n g = Inr (Some preds, g') \<and>
         length preds = n \<and> list_all ohlc_ok preds) \<and>
      (\<exists>paths g'. generate_monte_carlo_paths historical_data n k g = Inr (paths, g') \<and>
         list_all (list_all ohlc_ok) paths))"
proof (intro conjI allI impI)
  fix preds g'
  assume "generate_predictions historical_data n g = Inr (Some preds, g')"
  from generate_predictions_Inr [OF this]
  show "length preds = n" and "list_all ohlc_ok preds" by simp_all
next
  fix paths g'
  assume "generate_monte_carlo_paths historical_data n k g = Inr (paths, g')"
  from generate_monte_carlo_paths_shape [OF this]
  show "list_all (list_all ohlc_ok) paths" by (simp add: list_all_iff)
next
  assume a: "20 \<le> length historical_data \<and> 0 \<notin> set (butlast (map c_close historical_data))"
  then obtain preds g' where p: "generate_predictions historical_data n g = Inr (Some preds, g')"
    using generate_predictions_total by blast
  from generate_predictions_Inr [OF p] p
  show "\<exists>preds g'. generate_predictions historical_data n g = Inr (Some preds, g') \<and>
         length preds = n \<and> list_all ohlc_ok preds" by blast
  from a obtain paths g'' where m: "generate_monte_carlo_paths historical_data n k g = Inr (paths, g'')"
    using generate_monte_carlo_paths_total by blast
  from generate_monte_carlo_paths_shape [OF m] m
  show "\<exists>paths g'. generate_monte_carlo_paths historical_data n k g = Inr (paths, g') \<and>
         list_all (list_all ohlc_ok) paths" by (auto simp: list_all_iff)
qed

theorem predicted_candles_ohlc_witness:
  "20 \<le> length jump_window \<and> 0 \<notin> set (butlast (map c_close jump_window)) \<and>
   (\<exists>preds g'. generate_predictions jump_window 5 half_draws = Inr (Some preds, g') \<and>
      length preds = 5 \<and> list_all ohlc_ok preds) \<and>
   (\<exists>paths g'. generate_monte_carlo_paths jump_window 5 10 half_draws = Inr (paths, g') \<and>
      list_all (list_all ohlc_ok) paths)"
proof -
  have h: "20 \<le> length jump_window" by (simp add: jump_window_def)
  have z: "0 \<notin> set (butlast (map c_close jump_window))"
    by (simp add: jump_window_def step_candle_def butlast_append)
  show ?thesis
    using h z predicted_candles_ohlc [of jump_window 5 half_draws 10] by blast
qed

text \<open>On the halted window the return after the zero close is infinite, so is the mean
  return, and the first pass of the loop raises.\<close>

lemma halted_window_estimate: "mean_return (estimate halted_window) = None"
  by (simp add: estimate_def Let_def halted_window_def october_window_def flat_candle_def
      pd_mean_def)

lemma halted_window_raises: "generate_predictions halted_window 5 g = Inl OverflowError"
proof -
  have "20 \<le> length halted_window" by (simp add: halted_window_def october_window_def)
  from generate_predictions_raises [OF this, of 4 g] halted_window_estimate
  show ?thesis by simp
qed

section \<open>Forecast dates\<close>

lemma dates_after_friday:
  assumes "weekday d = 4"
  shows "map (\<lambda>k. skip_weekends (d + (int k + 1))) [0 ..< 5] = [d + 3, d + 3, d + 3, d + 4, d + 5]"
proof -
  have w: "weekday (d + 1) = 5" "weekday (d + 2) = 6" "weekday (d + 3) < 5"
    "weekday (d + 4) < 5" "weekday (d + 5) < 5"
    using assms unfolding weekday_def by presburger+
  have "[0 ..< 5] = [0, 1, 2, 3, 4::nat]" by (simp add: upt_rec)
  then show ?thesis
    using skip_weekends_saturday [OF w(1)] skip_weekends_sunday [OF w(2)]
      skip_weekends_weekday [OF w(3)] skip_weekends_weekday [OF w(4)]
      skip_weekends_weekday [OF w(5)]
    by simp
qed

text \<open>The loop of \<open>fix_qqq_predictions\<close> walks from the previous date and so yields five
  weekdays in strictly increasing order.\<close>

lemma predicted_dates_loop_keep:
  "length ds < 5 \<Longrightarrow> weekday (c + 1) < 5 \<Longrightarrow>
   predicted_dates_loop c ds = predicted_dates_loop (c + 1) (ds @ [c + 1])"
  by (subst predicted_dates_loop.simps) simp

lemma predicted_dates_loop_skip:
  "length ds < 5 \<Longrightarrow> \<not> weekday (c + 1) < 5 \<Longrightarrow>
   predicted_dates_loop c ds = predicted_dates_loop (c + 1) ds"
  by (subst predicted_dates_loop.simps) simp

lemma predicted_dates_loop_done:
  "\<not> length ds < 5 \<Longrightarrow> predicted_dates_loop c ds = ds"
  by (subst predicted_dates_loop.simps) simp

lemma predicted_dates_loop_inv:
  "sorted_wrt (<) ds \<Longrightarrow> \<forall>x \<in> set ds. x \<le> c \<and> weekday x < 5 \<Longrightarrow> length ds \<le> 5 \<Longrightarrow>
   sorted_wrt (<) (predicted_dates_loop c ds) \<and>
   (\<forall>x \<in> set (predicted_dates_loop c ds). weekday x < 5) \<and>
   length (predicted_dates_loop c ds) = 5"
proof (induction c ds rule: predicted_dates_loop.induct)
  case (1 c ds)
  show ?case
  proof (cases "length ds < 5")
    case False
    then have "length ds = 5" using "1.prems"(3) by linarith
    then show ?thesis
      using "1.prems"(1,2) predicted_dates_loop_done [OF False, of c] by simp
  next
    case lt: True
    show ?thesis
    proof (cases "weekday (c + 1) < 5")
      case True
      have "\<forall>x \<in> set ds. x < c + 1" using "1.prems"(2) by fastforce
      then have s: "sorted_wrt (<) (ds @ [c + 1])"
        using "1.prems"(1) by (simp add: sorted_wrt_append)
      have a: "\<forall>x \<in> set (ds @ [c + 1]). x \<le> c + 1 \<and> weekday x < 5"
        using "1.prems"(2) True by fastforce
      have l: "length (ds @ [c + 1]) \<le> 5" using lt by simp
      show ?thesis
        unfolding predicted_dates_loop_keep [OF lt True]
        by (rule "1.IH"(1) [OF lt True s a l])
    next
      case False
      have a: "\<forall>x \<in> set ds. x \<le> c + 1 \<and> weekday x < 5"
        using "1.prems"(2) by fastforce
      show ?thesis
        unfolding predicted_dates_loop_skip [OF lt False]
        by (rule "1.IH"(2) [OF lt False "1.prems"(1) a "1.prems"(3)])
    qed
  qed
qed

lemma predicted_dates_trading_days:
  "sorted_wrt (<) (predicted_dates d) \<and> (\<forall>x \<in> set (predicted_dates d). weekday x < 5) \<and>
   length (predicted_dates d) = 5"
  using predicted_dates_loop_inv [of "[]" d] by (simp add: predicted_dates_def)

lemma predicted_dates_october_2024:
  "predicted_dates 739163 = [739166, 739167, 739168, 739169, 739170]"
  by code_simp

text \<open>
  C2. \<open>generate_predictions\<close> starts each day from \<open>last_date + (i + 1)\<close>, not from the
  previous forecast date, before it skips the weekend. From the window that ends on Friday
  2025-10-03 the five forecast dates are Monday 2025-10-06 three times, then 10-07 and
  10-08, whatever the draws: they are neither pairwise distinct nor strictly increasing,
  and they stop short of the 2025-10-10 that the script announces.
\<close>

theorem forecast_dates_after_friday:
  "map_sum id (\<lambda>r. map_option (map c_date) (fst r)) (generate_predictions october_window 5 g) =
     Inr (Some [739530, 739530, 739530, 739531, 739532])"
proof -
  have h: "20 \<le> length october_window" by (simp add: october_window_def)
  have z: "0 \<notin> set (butlast (map c_close october_window))"
    by (simp add: october_window_def flat_candle_def)
  have l: "c_date (last october_window) = 739527"
    by (simp add: october_window_def flat_candle_def)
  have w: "weekday 739527 = 4" by (simp add: weekday_def)
  from generate_predictions_total [OF h z, of 5 g]
  obtain preds g' where p: "generate_predictions october_window 5 g = Inr (Some preds, g')"
    by blast
  from generate_predictions_Inr [OF p] have "map c_date preds = [739530, 739530, 739530, 739531, 739532]"
    unfolding l using dates_after_friday [OF w] by simp
  then show ?thesis using p by simp
qed

section \<open>Market overview\<close>

lemma tally_step_bullish:
  "bullish (tally_step t it) =
     bullish t @ (if 1 < pr_price_change_percent (snd it) then [fst it] else [])"
  by (simp add: tally_step_def categorize_trend_def Let_def)

lemma tally_step_bearish:
  "bearish (tally_step t it) =
     bearish t @ (if \<not> 1 < pr_price_change_percent (snd it) \<and> pr_price_change_percent (snd it) < - 1
                  then [fst it] else [])"
  by (simp add: tally_step_def categorize_trend_def Let_def)

lemma tally_step_neutral:
  "neutral (tally_step t it) =
     neutral t @ (if - 1 \<le> pr_price_change_percent (snd it) \<and> pr_price_change_percent (snd it) \<le> 1
                  then [fst it] else [])"
  by (simp add: tally_step_def categorize_trend_def Let_def)

lemma tally_step_gainers: "gainers (tally_step t it) = gainers t @ [gainer_entry it]"
  by (simp add: tally_step_def Let_def split: trend.splits)

lemma tally_step_volume_leaders:
  "volume_leaders (tally_step t it) = volume_leaders t @ [volume_entry it]"
  by (simp add: tally_step_def Let_def split: trend.splits)

lemma tally_step_volatile_stocks:
  "volatile_stocks (tally_step t it) = volatile_stocks t @ [volatile_entry it]"
  by (simp add: tally_step_def Let_def split: trend.splits)

lemma foldl_bullish:
  "bullish (foldl tally_step t cd) =
     bullish t @ map fst (filter (\<lambda>it. 1 < pr_price_change_percent (snd it)) cd)"
  by (induction cd arbitrary: t) (simp_all add: tally_step_bullish)

lemma foldl_bearish:
  "bearish (foldl tally_step t cd) =
     bearish t @ map fst (filter (\<lambda>it. pr_price_change_percent (snd it) < - 1) cd)"
  by (induction cd arbitrary: t) (simp_all add: tally_step_bearish)

lemma foldl_neutral:
  "neutral (foldl tally_step t cd) =
     neutral t @ map fst (filter (\<lambda>it. - 1 \<le> pr_price_change_percent (snd it) \<and>
                                         pr_price_change_percent (snd it) \<le> 1) cd)"
  by (induction cd arbitrary: t) (simp_all add: tally_step_neutral)

lemma foldl_gainers: "gainers (foldl tally_step t cd) = gainers t @ map gainer_entry cd"
  by (induction cd arbitrary: t) (simp_all add: tally_step_gainers)

lemma foldl_volume_leaders:
  "volume_leaders (foldl tally_step t cd) = volume_leaders t @ map volume_entry cd"
  by (induction cd arbitrary: t) (simp_all add: tally_step_volume_leaders)

lemma foldl_volatile_stocks:
  "volatile_stocks (foldl tally_step t cd) = volatile_stocks t @ map volatile_entry cd"
  by (induction cd arbitrary: t) (simp_all add: tally_step_volatile_stocks)

lemma three_way_count:
  "length (filter (\<lambda>it. 1 < f it) cd) + length (filter (\<lambda>it. f it < - 1) cd) +
   length (filter (\<lambda>it. - 1 \<le> f it \<and> f it \<le> 1) cd) = length cd"
  for f :: "'a \<Rightarrow> real"
  by (induction cd) auto

text \<open>
  C5. Each of the three scripts maps a percentage change to its bucket by the same pure
  function: above 1 is Bullish, below -1 is Bearish, and the closed interval from -1 to 1,
  both ends included, is Neutral. In the market overview the three lists are the tickers of
  the three buckets, so every record is counted once.
\<close>

theorem trend_classification:
  "(categorize_trend x = Bullish) = (1 < x) \<and>
   (categorize_trend x = Bearish) = (x < - 1) \<and>
   (categorize_trend x = Neutral) = (- 1 \<le> x \<and> x \<le> 1) \<and>
   categorize_trend 1 = Neutral \<and> categorize_trend (- 1) = Neutral \<and>
   qqq_direction x = categorize_trend x \<and>
   stats_direction x = categorize_trend x \<and>
   bullish (tally_all cd) =
     map fst (filter (\<lambda>it. categorize_trend (pr_price_change_percent (snd it)) = Bullish) cd) \<and>
   bearish (tally_all cd) =
     map fst (filter (\<lambda>it. categorize_trend (pr_price_change_percent (snd it)) = Bearish) cd) \<and>
   neutral (tally_all cd) =
     map fst (filter (\<lambda>it. categorize_trend (pr_price_change_percent (snd it)) = Neutral) cd) \<and>
   length (bullish (tally_all cd)) + length (bearish (tally_all cd)) +
     length (neutral (tally_all cd)) = length cd"
proof -
  have b: "(categorize_trend y = Bullish) = (1 < y)" for y
    by (simp add: categorize_trend_def)
  have r: "(categorize_trend y = Bearish) = (y < - 1)" for y
    by (auto simp add: categorize_trend_def)
  have n: "(categorize_trend y = Neutral) = (- 1 \<le> y \<and> y \<le> 1)" for y
    by (auto simp add: categorize_trend_def)
  have q: "qqq_direction x = categorize_trend x"
    by (simp add: qqq_direction_def categorize_trend_def)
  have s: "stats_direction x = categorize_trend x"
    by (simp add: stats_direction_def categorize_trend_def)
  have c: "length (bullish (tally_all cd)) + length (bearish (tally_all cd)) +
     length (neutral (tally_all cd)) = length cd"
    using three_way_count [of "\<lambda>it. pr_price_change_percent (snd it)" cd]
    by (simp add: tally_all_def foldl_bullish foldl_bearish foldl_neutral)
  show ?thesis
    using q s c
    by (simp add: b r n tally_all_def foldl_bullish foldl_bearish foldl_neutral)
qed

section \<open>Ranking lists\<close>

lemma py_sorted_sorted: "sorted_wrt (\<lambda>a b. k a \<le> k b) (py_sorted k xs)"
  using sorted_sort_key [of k xs] by (simp add: py_sorted_def sorted_map)

lemma py_sorted_reverse_sorted: "sorted_wrt (\<lambda>a b. k b \<le> k a) (py_sorted_reverse k xs)"
  using sorted_sort_key [of k "rev xs"] by (simp add: py_sorted_reverse_def sorted_map sorted_wrt_rev)

lemma py_sorted_stable: "filter (\<lambda>y. k y = v) (py_sorted k xs) = filter (\<lambda>y. k y = v) xs"
  by (simp add: py_sorted_def sort_key_stable)

lemma py_sorted_reverse_stable:
  "filter (\<lambda>y. k y = v) (py_sorted_reverse k xs) = filter (\<lambda>y. k y = v) xs"
proof -
  have "filter (\<lambda>y. k y = v) (rev (sort_key k (rev xs))) =
        rev (filter (\<lambda>y. k y = v) (sort_key k (rev xs)))"
    by (simp add: rev_filter)
  also have "\<dots> = rev (filter (\<lambda>y. k y = v) (rev xs))"
    by (simp only: sort_key_stable)
  also have "\<dots> = filter (\<lambda>y. k y = v) xs"
    by (simp add: rev_filter)
  finally show ?thesis by (simp add: py_sorted_reverse_def)
qed

lemma py_sorted_set: "set (py_sorted k xs) = set xs"
  by (simp add: py_sorted_def)

lemma py_sorted_reverse_set: "set (py_sorted_reverse k xs) = set xs"
  by (simp add: py_sorted_reverse_def)

lemma py_sorted_length: "length (py_sorted k xs) = length xs"
  by (simp add: py_sorted_def)

lemma py_sorted_reverse_length: "length (py_sorted_reverse k xs) = length xs"
  by (simp add: py_sorted_reverse_def)

lemma sorted_wrt_take10: "sorted_wrt R xs \<Longrightarrow> sorted_wrt R (take n xs)"
proof -
  assume "sorted_wrt R xs"
  then have "sorted_wrt R (take n xs @ drop n xs)" by simp
  then show ?thesis unfolding sorted_wrt_append by blast
qed

lemma ties_prefix:
  assumes "\<And>v. filter (\<lambda>e. re_metric e = v) ys = filter (\<lambda>e. re_metric e = v) (map mk cd)"
    and "\<And>it. re_ticker (mk it) = fst it"
  shows "prefix (map re_ticker (filter (\<lambda>e. re_metric e = v) (take n ys)))
           (map fst (filter (\<lambda>it. re_metric (mk it) = v) cd))"
proof -
  have "prefix (filter (\<lambda>e. re_metric e = v) (take n ys)) (filter (\<lambda>e. re_metric e = v) ys)"
    by (rule filter_mono_prefix [OF take_is_prefix])
  then have "prefix (map re_ticker (filter (\<lambda>e. re_metric e = v) (take n ys)))
               (map re_ticker (filter (\<lambda>e. re_metric e = v) (map mk cd)))"
    unfolding assms(1) by (rule map_mono_prefix)
  moreover have "map re_ticker (filter (\<lambda>e. re_metric e = v) (map mk cd)) =
                 map fst (filter (\<lambda>it. re_metric (mk it) = v) cd)"
    by (simp add: filter_map assms(2) comp_def)
  ultimately show ?thesis by simp
qed

lemma overview_lists:
  assumes "cd \<noteq> []"
  shows "top_gainers (update_market_overview cd old now) =
           take 10 (py_sorted_reverse re_metric (map gainer_entry cd))"
    and "top_losers (update_market_overview cd old now) =
           take 10 (py_sorted re_metric (py_sorted_reverse re_metric (map gainer_entry cd)))"
    and "highest_volume (update_market_overview cd old now) =
           take 10 (py_sorted_reverse re_metric (map volume_entry cd))"
    and "most_volatile (update_market_overview cd old now) =
           take 10 (py_sorted_reverse re_metric (map volatile_entry cd))"
  using assms
  by (simp_all add: update_market_overview_def Let_def tally_all_def foldl_gainers
      foldl_volume_leaders foldl_volatile_stocks)

lemma gainers_ties:
  "filter (\<lambda>e. re_metric e = v) (py_sorted_reverse re_metric xs) = filter (\<lambda>e. re_metric e = v) xs"
  by (rule py_sorted_reverse_stable)

lemma losers_ties:
  "filter (\<lambda>e. re_metric e = v) (py_sorted re_metric (py_sorted_reverse re_metric xs)) =
   filter (\<lambda>e. re_metric e = v) xs"
  by (simp only: py_sorted_stable py_sorted_reverse_stable)

lemma ohlcv_body_no_actual:
  assumes "get_or [] (j_actual_candlesticks chart) = []"
  shows "\<exists>r. ohlcv_body data chart ticker = Inr r \<and> pr_price_change_percent r = 0 \<and>
             pr_volatility r = 0 \<and> pr_price_change r = 0 \<and> pr_actual_candlesticks r = []"
  using assms by (simp add: ohlcv_body_def Let_def)

lemma entry_of_ticker:
  assumes "distinct (map fst cd)" and "(ticker, r) \<in> set cd"
    and "e \<in> set (map mk cd)" and "\<And>it. re_ticker (mk it) = fst it" and "re_ticker e = ticker"
  shows "e = mk (ticker, r)"
proof -
  from assms(3) obtain it where it: "it \<in> set cd" "e = mk it" by auto
  then have "fst it = ticker" using assms(4,5) by simp
  then have "(ticker, snd it) \<in> set cd" using it(1) by (metis prod.collapse)
  then have "snd it = r" using assms(1,2) by (meson eq_key_imp_eq_value)
  then show ?thesis using it(2) \<open>fst it = ticker\<close> by (metis prod.collapse)
qed

lemma process_fresh_file: "process_ohlcv_file fresh_file t = Some (fresh_record t)"
  by (simp add: process_ohlcv_file_def fresh_file_def fresh_chart_def ohlcv_body_def Let_def get_or_def
      fresh_record_def october_window_def flat_candle_def tail_def mean_def)

lemma ranking_lists_nonempty:
  assumes "candlestick_data \<noteq> []"
    and "ov = update_market_overview candlestick_data old now"
  shows "length (top_gainers ov) = min 10 (length candlestick_data) \<and>
         length (top_losers ov) = min 10 (length candlestick_data) \<and>
         length (highest_volume ov) = min 10 (length candlestick_data) \<and>
         length (most_volatile ov) = min 10 (length candlestick_data) \<and>
         sorted_wrt (\<lambda>a b. re_metric b \<le> re_metric a) (top_gainers ov) \<and>
         sorted_wrt (\<lambda>a b. re_metric a \<le> re_metric b) (top_losers ov) \<and>
         sorted_wrt (\<lambda>a b. re_metric b \<le> re_metric a) (highest_volume ov) \<and>
         sorted_wrt (\<lambda>a b. re_metric b \<le> re_metric a) (most_volatile ov) \<and>
         (\<forall>v. prefix (map re_ticker (filter (\<lambda>e. re_metric e = v) (top_gainers ov)))
                 (map fst (filter (\<lambda>it. pr_price_change_percent (snd it) = v) candlestick_data))) \<and>
         (\<forall>v. prefix (map re_ticker (filter (\<lambda>e. re_metric e = v) (top_losers ov)))
                 (map fst (filter (\<lambda>it. pr_price_change_percent (snd it) = v) candlestick_data))) \<and>
         (\<forall>v. prefix (map re_ticker (filter (\<lambda>e. re_metric e = v) (highest_volume ov)))
                 (map fst (filter (\<lambda>it. pr_average_volume (snd it) = v) candlestick_data))) \<and>
         (\<forall>v. prefix (map re_ticker (filter (\<lambda>e. re_metric e = v) (most_volatile ov)))
                 (map fst (filter (\<lambda>it. pr_volatility (snd it) = v) candlestick_data)))"
proof -
  note l = overview_lists [OF assms(1), of old now, folded assms(2)]
  have len: "length (top_gainers ov) = min 10 (length candlestick_data)"
    "length (top_losers ov) = min 10 (length candlestick_data)"
    "length (highest_volume ov) = min 10 (length candlestick_data)"
    "length (most_volatile ov) = min 10 (length candlestick_data)"
    by (simp_all add: l py_sorted_length py_sorted_reverse_length min.commute)
  have srt: "sorted_wrt (\<lambda>a b. re_metric b \<le> re_metric a) (top_gainers ov)"
    "sorted_wrt (\<lambda>a b. re_metric a \<le> re_metric b) (top_losers ov)"
    "sorted_wrt (\<lambda>a b. re_metric b \<le> re_metric a) (highest_volume ov)"
    "sorted_wrt (\<lambda>a b. re_metric b \<le> re_metric a) (most_volatile ov)"
    unfolding l
    by (rule sorted_wrt_take10, rule py_sorted_reverse_sorted py_sorted_sorted)+
  have g: "prefix (map re_ticker (filter (\<lambda>e. re_metric e = v) (top_gainers ov)))
             (map fst (filter (\<lambda>it. pr_price_change_percent (snd it) = v) candlestick_data))" for v
    using ties_prefix [of "py_sorted_reverse re_metric (map gainer_entry candlestick_data)"
        gainer_entry candlestick_data v 10]
    by (simp add: l gainers_ties gainer_entry_def)
  have lo: "prefix (map re_ticker (filter (\<lambda>e. re_metric e = v) (top_losers ov)))
             (map fst (filter (\<lambda>it. pr_price_change_percent (snd it) = v) candlestick_data))" for v
    using ties_prefix [of "py_sorted re_metric (py_sorted_reverse re_metric (map gainer_entry candlestick_data))"
        gainer_entry candlestick_data v 10]
    by (simp add: l losers_ties gainer_entry_def)
  have vo: "prefix (map re_ticker (filter (\<lambda>e. re_metric e = v) (highest_volume ov)))
             (map fst (filter (\<lambda>it. pr_average_volume (snd it) = v) candlestick_data))" for v
    using ties_prefix [of "py_sorted_reverse re_metric (map volume_entry candlestick_data)"
        volume_entry candlestick_data v 10]
    by (simp add: l gainers_ties volume_entry_def)
  have va: "prefix (map re_ticker (filter (\<lambda>e. re_metric e = v) (most_volatile ov)))
             (map fst (filter (\<lambda>it. pr_volatility (snd it) = v) candlestick_data))" for v
    using ties_prefix [of "py_sorted_reverse re_metric (map volatile_entry candlestick_data)"
        volatile_entry candlestick_data v 10]
    by (simp add: l gainers_ties volatile_entry_def)
  show ?thesis
    using len srt g lo vo va by blast
qed


lemma ranking_lists_empty:
  assumes "ov = update_market_overview [] initial_overview now"
  shows "top_gainers ov = [] \<and> top_losers ov = [] \<and> highest_volume ov = [] \<and> most_volatile ov = []"
  using assms by (simp add: update_market_overview_def initial_overview_def)

text \<open>
  C6, as the code has it. For every dict of processed records, each of the four ranking
  lists holds the first ten entries (all of them when there are fewer) of a list sorted by
  its metric: gainers, volume and volatility descending, losers ascending. With no record
  the overview is left as \<open>__init__\<close> set it, with four empty lists. The sorts are stable
  and nothing compares tickers: entries of equal metric stand in the order in which their
  tickers were inserted in \<open>candlestick_data\<close>.
\<close>

theorem ranking_lists_sorted_stable:
  assumes "candlestick_data = [] \<longrightarrow> old = initial_overview"
    and "ov = update_market_overview candlestick_data old now"
  shows "length (top_gainers ov) = min 10 (length candlestick_data) \<and>
         length (top_losers ov) = min 10 (length candlestick_data) \<and>
         length (highest_volume ov) = min 10 (length candlestick_data) \<and>
         length (most_volatile ov) = min 10 (length candlestick_data) \<and>
         sorted_wrt (\<lambda>a b. re_metric b \<le> re_metric a) (top_gainers ov) \<and>
         sorted_wrt (\<lambda>a b. re_metric a \<le> re_metric b) (top_losers ov) \<and>
         sorted_wrt (\<lambda>a b. re_metric b \<le> re_metric a) (highest_volume ov) \<and>
         sorted_wrt (\<lambda>a b. re_metric b \<le> re_metric a) (most_volatile ov) \<and>
         (\<forall>v. prefix (map re_ticker (filter (\<lambda>e. re_metric e = v) (top_gainers ov)))
                 (map fst (filter (\<lambda>it. pr_price_change_percent (snd it) = v) candlestick_data))) \<and>
         (\<forall>v. prefix (map re_ticker (filter (\<lambda>e. re_metric e = v) (top_losers ov)))
                 (map fst (filter (\<lambda>it. pr_price_change_percent (snd it) = v) candlestick_data))) \<and>
         (\<forall>v. prefix (map re_ticker (filter (\<lambda>e. re_metric e = v) (highest_volume ov)))
                 (map fst (filter (\<lambda>it. pr_average_volume (snd it) = v) candlestick_data))) \<and>
         (\<forall>v. prefix (map re_ticker (filter (\<lambda>e. re_metric e = v) (most_volatile ov)))
                 (map fst (filter (\<lambda>it. pr_volatility (snd it) = v) candlestick_data)))"
proof (cases "candlestick_data = []")
  case True
  then have "ov = update_market_overview [] initial_overview now" using assms by simp
  from ranking_lists_empty [OF this] show ?thesis using True by simp
next
  case False
  then show ?thesis using assms(2) by (rule ranking_lists_nonempty)
qed

theorem ranking_lists_sorted_stable_witness:
  "length (top_gainers (update_market_overview two_fresh initial_overview ''2025-10-04T09:00:00'')) = 2 \<and>
   sorted_wrt (\<lambda>a b. re_metric a \<le> re_metric b)
     (top_losers (update_market_overview two_fresh initial_overview ''2025-10-04T09:00:00'')) \<and>
   length (top_gainers (update_market_overview [] initial_overview ''2025-10-04T09:00:00'')) = 0 \<and>
   sorted_wrt (\<lambda>a b. re_metric b \<le> re_metric a)
     (most_volatile (update_market_overview [] initial_overview ''2025-10-04T09:00:00''))"
proof -
  have h: "two_fresh = [] \<longrightarrow> initial_overview = initial_overview" by simp
  have e: "([] :: (string \<times> processed) list) = [] \<longrightarrow> initial_overview = initial_overview" by simp
  have l: "length two_fresh = 2" by (simp add: two_fresh_def)
  show ?thesis
    using l ranking_lists_sorted_stable [OF h refl, of "''2025-10-04T09:00:00''"]
      ranking_lists_sorted_stable [OF e refl, of "''2025-10-04T09:00:00''"]
    by simp
qed

text \<open>
  C6, as the claim states it, fails: two records of equal change percent inserted as ZM,
  AAPL are listed as ZM, AAPL among the gainers, although AAPL precedes ZM lexically.
\<close>

theorem ranking_ties_counterexample:
  "map re_ticker (top_gainers (update_market_overview two_fresh initial_overview ''2025-10-04T09:00:00''))
     = [''ZM'', ''AAPL''] \<and>
   map re_metric (top_gainers (update_market_overview two_fresh initial_overview ''2025-10-04T09:00:00''))
     = [0, 0] \<and>
   ''AAPL'' < ''ZM''"
  by (simp add: update_market_overview_def Let_def tally_all_def tally_step_def two_fresh_def
      categorize_trend_def fresh_record_def gainer_entry_def volume_entry_def volatile_entry_def
      py_sorted_reverse_def py_sorted_def less_char_def)

text \<open>
  C10. A prediction file whose \<open>actual_candlesticks\<close> is empty or absent is processed
  into a record with \<open>price_change_percent = 0\<close> and \<open>volatility = 0\<close>. In any overview
  built from a dict that holds this record the ticker is in the neutral list and in no
  other, and every entry it has among the gainers, the losers and the most volatile carries
  the metric 0.
\<close>

theorem fresh_record_is_neutral:
  assumes "j_chart_data data = Some chart"
    and "get_or [] (j_actual_candlesticks chart) = []"
  shows "\<exists>r. process_ohlcv_file data ticker = Some r \<and>
           pr_price_change_percent r = 0 \<and> pr_volatility r = 0 \<and>
           categorize_trend (pr_price_change_percent r) = Neutral \<and>
           (\<forall>cd old now. distinct (map fst cd) \<and> (ticker, r) \<in> set cd \<longrightarrow>
              ticker \<in> set (neutral (tally_all cd)) \<and>
              ticker \<notin> set (bullish (tally_all cd)) \<and>
              ticker \<notin> set (bearish (tally_all cd)) \<and>
              (\<forall>e \<in> set (top_gainers (update_market_overview cd old now)) \<union>
                     set (top_losers (update_market_overview cd old now)) \<union>
                     set (most_volatile (update_market_overview cd old now)).
                 re_ticker e = ticker \<longrightarrow> re_metric e = 0))"
proof -
  from ohlcv_body_no_actual [OF assms(2), of data ticker]
  obtain r where r: "ohlcv_body data chart ticker = Inr r" "pr_price_change_percent r = 0"
    "pr_volatility r = 0" by blast
  have p: "process_ohlcv_file data ticker = Some r"
    using assms(1) r(1) by (simp add: process_ohlcv_file_def)
  have n: "categorize_trend (pr_price_change_percent r) = Neutral"
    using r(2) by (simp add: categorize_trend_def)
  have rank: "ticker \<in> set (neutral (tally_all cd)) \<and>
              ticker \<notin> set (bullish (tally_all cd)) \<and>
              ticker \<notin> set (bearish (tally_all cd)) \<and>
              (\<forall>e \<in> set (top_gainers (update_market_overview cd old now)) \<union>
                     set (top_losers (update_market_overview cd old now)) \<union>
                     set (most_volatile (update_market_overview cd old now)).
                 re_ticker e = ticker \<longrightarrow> re_metric e = 0)"
    if d: "distinct (map fst cd)" and m: "(ticker, r) \<in> set cd" for cd old now
  proof -
    have ne: "cd \<noteq> []" using m by auto
    have same: "pr_price_change_percent (snd it) = 0" if "it \<in> set cd" "fst it = ticker" for it
    proof -
      have "(ticker, snd it) \<in> set cd" using that by (metis prod.collapse)
      then have "snd it = r" using d m by (meson eq_key_imp_eq_value)
      then show ?thesis using r(2) by simp
    qed
    have 1: "ticker \<in> set (neutral (tally_all cd))"
      using m r(2) by (force simp: tally_all_def foldl_neutral)
    have 2: "ticker \<notin> set (bullish (tally_all cd))"
      using same by (fastforce simp: tally_all_def foldl_bullish)
    have 3: "ticker \<notin> set (bearish (tally_all cd))"
      using same by (fastforce simp: tally_all_def foldl_bearish)
    have g: "re_metric e = 0"
      if "e \<in> set (top_gainers (update_market_overview cd old now))" "re_ticker e = ticker" for e
    proof -
      have "e \<in> set (map gainer_entry cd)"
        using that(1) set_take_subset [of 10 "py_sorted_reverse re_metric (map gainer_entry cd)"]
        unfolding overview_lists(1) [OF ne] py_sorted_reverse_set by blast
      from entry_of_ticker [OF d m this _ that(2)] show ?thesis
        using r(2) by (simp add: gainer_entry_def)
    qed
    have l: "re_metric e = 0"
      if "e \<in> set (top_losers (update_market_overview cd old now))" "re_ticker e = ticker" for e
    proof -
      have "e \<in> set (map gainer_entry cd)"
        using that(1)
          set_take_subset [of 10 "py_sorted re_metric (py_sorted_reverse re_metric (map gainer_entry cd))"]
        unfolding overview_lists(2) [OF ne] py_sorted_set py_sorted_reverse_set by blast
      from entry_of_ticker [OF d m this _ that(2)] show ?thesis
        using r(2) by (simp add: gainer_entry_def)
    qed
    have v: "re_metric e = 0"
      if "e \<in> set (most_volatile (update_market_overview cd old now))" "re_ticker e = ticker" for e
    proof -
      have "e \<in> set (map volatile_entry cd)"
        using that(1) set_take_subset [of 10 "py_sorted_reverse re_metric (map volatile_entry cd)"]
        unfolding overview_lists(4) [OF ne] py_sorted_reverse_set by blast
      from entry_of_ticker [OF d m this _ that(2)] show ?thesis
        using r(3) by (simp add: volatile_entry_def)
    qed
    show ?thesis using 1 2 3 g l v by blast
  qed
  show ?thesis
    using p r(2,3) n rank by blast
qed

theorem fresh_record_is_neutral_witness:
  "j_chart_data fresh_file = Some fresh_chart \<and>
   get_or [] (j_actual_candlesticks fresh_chart) = [] \<and>
   distinct (map fst two_fresh) \<and> (''AAPL'', fresh_record ''AAPL'') \<in> set two_fresh \<and>
   process_ohlcv_file fresh_file ''AAPL'' = Some (fresh_record ''AAPL'') \<and>
   ''AAPL'' \<in> set (neutral (tally_all two_fresh)) \<and>
   list_all (\<lambda>e. re_metric e = 0)
     (filter (\<lambda>e. re_ticker e = ''AAPL'')
        (top_gainers (update_market_overview two_fresh initial_overview ''2025-10-04T09:00:00'')))"
proof -
  have c: "j_chart_data fresh_file = Some fresh_chart" by (simp add: fresh_file_def)
  have a: "get_or [] (j_actual_candlesticks fresh_chart) = []"
    by (simp add: fresh_chart_def get_or_def)
  have d: "distinct (map fst two_fresh)" by (simp add: two_fresh_def)
  have m: "(''AAPL'', fresh_record ''AAPL'') \<in> set two_fresh" by (simp add: two_fresh_def)
  have p: "process_ohlcv_file fresh_file ''AAPL'' = Some (fresh_record ''AAPL'')"
    by (rule process_fresh_file)
  from fresh_record_is_neutral [OF c a, of "''AAPL''"] p
  have "\<forall>cd old now. distinct (map fst cd) \<and> (''AAPL'', fresh_record ''AAPL'') \<in> set cd \<longrightarrow>
          ''AAPL'' \<in> set (neutral (tally_all cd)) \<and>
          ''AAPL'' \<notin> set (bullish (tally_all cd)) \<and>
          ''AAPL'' \<notin> set (bearish (tally_all cd)) \<and>
          (\<forall>e \<in> set (top_gainers (update_market_overview cd old now)) \<union>
                 set (top_losers (update_market_overview cd old now)) \<union>
                 set (most_volatile (update_market_overview cd old now)).
             re_ticker e = ''AAPL'' \<longrightarrow> re_metric e = 0)"
    by simp
  then have "''AAPL'' \<in> set (neutral (tally_all two_fresh)) \<and>
     (\<forall>e \<in> set (top_gainers (update_market_overview two_fresh initial_overview ''2025-10-04T09:00:00'')).
        re_ticker e = ''AAPL'' \<longrightarrow> re_metric e = 0)"
    using d m by blast
  then have "''AAPL'' \<in> set (neutral (tally_all two_fresh)) \<and>
     list_all (\<lambda>e. re_metric e = 0)
       (filter (\<lambda>e. re_ticker e = ''AAPL'')
          (top_gainers (update_market_overview two_fresh initial_overview ''2025-10-04T09:00:00'')))"
    by (simp add: list_all_iff)
  then show ?thesis using c a d m p by blast
qed

section \<open>Percentile bands\<close>

lemma lerp_bounds:
  fixes a b g :: real
  assumes "a \<le> b" "0 \<le> g" "g \<le> 1"
  shows "a \<le> a + (b - a) * g" and "a + (b - a) * g \<le> b"
proof -
  have "0 \<le> (b - a) * g" using assms by simp
  then show "a \<le> a + (b - a) * g" by simp
  have "(b - a) * g \<le> (b - a) * 1" using assms by (intro mult_left_mono) simp_all
  then show "a + (b - a) * g \<le> b" by simp
qed

lemma interpolate_mono:
  fixes arr :: "real list"
  assumes s: "sorted arr" and n: "arr \<noteq> []"
    and h: "0 \<le> h1" "h1 \<le> h2" "h2 \<le> real (length arr) - 1"
  shows "arr ! nat \<lfloor>h1\<rfloor> +
           (arr ! min (nat \<lfloor>h1\<rfloor> + 1) (length arr - 1) - arr ! nat \<lfloor>h1\<rfloor>) * (h1 - real (nat \<lfloor>h1\<rfloor>))
         \<le> arr ! nat \<lfloor>h2\<rfloor> +
           (arr ! min (nat \<lfloor>h2\<rfloor> + 1) (length arr - 1) - arr ! nat \<lfloor>h2\<rfloor>) * (h2 - real (nat \<lfloor>h2\<rfloor>))"
proof -
  define k1 where "k1 = nat \<lfloor>h1\<rfloor>"
  define k2 where "k2 = nat \<lfloor>h2\<rfloor>"
  define n1 where "n1 = min (k1 + 1) (length arr - 1)"
  define n2 where "n2 = min (k2 + 1) (length arr - 1)"
  have len: "0 < length arr" using n by simp
  have h2': "0 \<le> h2" using h by linarith
  have r1: "real k1 = of_int \<lfloor>h1\<rfloor>" using h(1) by (simp add: k1_def)
  have r2: "real k2 = of_int \<lfloor>h2\<rfloor>" using h2' by (simp add: k2_def)
  have g1: "0 \<le> h1 - real k1" "h1 - real k1 \<le> 1" unfolding r1 by linarith+
  have g2: "0 \<le> h2 - real k2" "h2 - real k2 \<le> 1" unfolding r2 by linarith+
  have k12: "k1 \<le> k2" unfolding k1_def k2_def using h(2) by (simp add: floor_mono nat_mono)
  have "real k2 \<le> real (length arr) - 1" using g2(1) h(3) by linarith
  then have k2n: "k2 \<le> length arr - 1" using len by linarith
  have k2l: "k2 < length arr" using k2n len by linarith
  have k1l: "k1 < length arr" using k12 k2l by linarith
  have n1l: "n1 < length arr" "k1 \<le> n1" unfolding n1_def using len k1l by auto
  have n2l: "n2 < length arr" "k2 \<le> n2" unfolding n2_def using len k2l by auto
  have a1: "arr ! k1 \<le> arr ! n1" using s n1l by (simp add: sorted_nth_mono)
  have a2: "arr ! k2 \<le> arr ! n2" using s n2l by (simp add: sorted_nth_mono)
  show ?thesis
    unfolding k1_def [symmetric] k2_def [symmetric] n1_def [symmetric] n2_def [symmetric]
  proof (cases "k1 = k2")
    case True
    then have e: "n1 = n2" by (simp add: n1_def n2_def)
    have "(arr ! n2 - arr ! k2) * (h1 - real k2) \<le> (arr ! n2 - arr ! k2) * (h2 - real k2)"
      using a2 h(2) by (intro mult_left_mono) simp_all
    then show "arr ! k1 + (arr ! n1 - arr ! k1) * (h1 - real k1)
                 \<le> arr ! k2 + (arr ! n2 - arr ! k2) * (h2 - real k2)"
      using True e by simp
  next
    case False
    then have "k1 + 1 \<le> k2" using k12 by linarith
    then have "n1 \<le> k2" unfolding n1_def by simp
    then have m: "arr ! n1 \<le> arr ! k2" using s k2l by (simp add: sorted_nth_mono)
    have "arr ! k1 + (arr ! n1 - arr ! k1) * (h1 - real k1) \<le> arr ! n1"
      using lerp_bounds(2) [OF a1 g1] .
    moreover have "arr ! k2 \<le> arr ! k2 + (arr ! n2 - arr ! k2) * (h2 - real k2)"
      using lerp_bounds(1) [OF a2 g2] .
    ultimately show "arr ! k1 + (arr ! n1 - arr ! k1) * (h1 - real k1)
                 \<le> arr ! k2 + (arr ! n2 - arr ! k2) * (h2 - real k2)"
      using m by linarith
  qed
qed

lemma np_percentile_mono:
  assumes "values \<noteq> []" "0 \<le> q1" "q1 \<le> q2" "q2 \<le> 100"
  shows "np_percentile values q1 \<le> np_percentile values q2"
proof -
  have n: "sort values \<noteq> []" using assms(1) by (metis length_sort length_0_conv)
  have l: "0 \<le> real (length (sort values)) - 1"
    using assms(1) by (cases "values") simp_all
  have h1: "0 \<le> (real (length (sort values)) - 1) * (q1 / 100)"
    using l assms(2) by simp
  have h2: "(real (length (sort values)) - 1) * (q1 / 100) \<le> (real (length (sort values)) - 1) * (q2 / 100)"
    using l assms(3) by (intro mult_left_mono) simp_all
  have "(real (length (sort values)) - 1) * (q2 / 100) \<le> (real (length (sort values)) - 1) * 1"
    using l assms(4) by (intro mult_left_mono) simp_all
  then have h3: "(real (length (sort values)) - 1) * (q2 / 100) \<le> real (length (sort values)) - 1"
    by simp
  show ?thesis
    unfolding np_percentile_def Let_def
    by (rule interpolate_mono [OF sorted_sort n h1 h2 h3])
qed


lemma metric_stats_ordered: "values \<noteq> [] \<Longrightarrow> percentiles_ordered (metric_stats values)"
  by (simp add: percentiles_ordered_def metric_stats_def np_percentile_mono)

lemma stats_of_day_ordered: "paths \<noteq> [] \<Longrightarrow> day_stats_ordered (stats_of_day paths d)"
  by (simp add: day_stats_ordered_def stats_of_day_def column_def metric_stats_ordered)

lemma percentile_loop_ordered:
  assumes "paths \<noteq> []"
  shows "percentile_loop paths ds m = Inr m' \<Longrightarrow>
         (\<And>d st. m d = Some st \<Longrightarrow> day_stats_ordered st) \<Longrightarrow>
         m' d = Some st \<Longrightarrow> day_stats_ordered st"
proof (induction ds arbitrary: m)
  case Nil
  then show ?case by simp
next
  case (Cons i ds)
  from Cons.prems(1) have r: "day_in_range i paths"
    and l: "percentile_loop paths ds (m(c_date (hd paths ! i) \<mapsto> stats_of_day paths i)) = Inr m'"
    by (simp_all split: if_splits)
  show ?case
  proof (rule Cons.IH [OF l _ Cons.prems(3)])
    fix d' st'
    assume "(m(c_date (hd paths ! i) \<mapsto> stats_of_day paths i)) d' = Some st'"
    then show "day_stats_ordered st'"
      using Cons.prems(2) stats_of_day_ordered [OF assms, of i]
      by (auto split: if_splits)
  qed
qed

lemma percentile_loop_total:
  "\<forall>i \<in> set ds. day_in_range i paths \<Longrightarrow>
   \<exists>m'. percentile_loop paths ds m = Inr m' \<and>
         dom m' = dom m \<union> (\<lambda>i. c_date (hd paths ! i)) ` set ds"
proof (induction ds arbitrary: m)
  case Nil
  then show ?case by simp
next
  case (Cons i ds)
  then have "\<forall>i \<in> set ds. day_in_range i paths" by simp
  from Cons.IH [OF this, of "m(c_date (hd paths ! i) \<mapsto> stats_of_day paths i)"]
  obtain m' where m': "percentile_loop paths ds (m(c_date (hd paths ! i) \<mapsto> stats_of_day paths i)) = Inr m'"
    "dom m' = dom (m(c_date (hd paths ! i) \<mapsto> stats_of_day paths i)) \<union>
       (\<lambda>i. c_date (hd paths ! i)) ` set ds"
    by blast
  have "percentile_loop paths (i # ds) m = Inr m'"
    using Cons.prems m'(1) by simp
  moreover have "dom m' = dom m \<union> (\<lambda>i. c_date (hd paths ! i)) ` set (i # ds)"
    unfolding m'(2) by auto
  ultimately show ?case by blast
qed

lemma same_length_in_range:
  assumes "\<forall>p \<in> set paths. length p = n"
  shows "\<forall>i \<in> set [0 ..< n]. day_in_range i paths"
  using assms by (simp add: day_in_range_def list_all_iff)

lemma calculate_percentiles_total:
  assumes "paths \<noteq> []" and "\<forall>p \<in> set paths. length p = length (hd paths)"
  shows "\<exists>m. calculate_percentiles paths = Inr m \<and> dom m = c_date ` set (hd paths)"
proof -
  from percentile_loop_total [OF same_length_in_range [OF assms(2)], of Map.empty]
  obtain m where m: "percentile_loop paths [0 ..< length (hd paths)] Map.empty = Inr m"
    "dom m = (\<lambda>i. c_date (hd paths ! i)) ` set [0 ..< length (hd paths)]"
    by auto
  have "map (\<lambda>i. c_date (hd paths ! i)) [0 ..< length (hd paths)] = map c_date (hd paths)"
    by (rule nth_equalityI) simp_all
  then have "set (map (\<lambda>i. c_date (hd paths ! i)) [0 ..< length (hd paths)]) = set (map c_date (hd paths))"
    by (rule arg_cong)
  then have "(\<lambda>i. c_date (hd paths ! i)) ` set [0 ..< length (hd paths)] = c_date ` set (hd paths)"
    by (simp only: set_map)
  then show ?thesis using m assms(1) by (simp add: calculate_percentiles_def)
qed

text \<open>The interpolated median of the values 100, 101, ..., 109 is 104.5.\<close>

lemma np_percentile_example:
  "np_percentile [100, 101, 102, 103, 104, 105, 106, 107, 108, 109] 50 = 104.5"
  by (simp add: np_percentile_def Let_def)

text \<open>
  C3. For a non-empty ensemble, every entry that \<open>calculate_percentiles\<close> returns has
  \<open>p10 \<le> p25 \<le> p50 \<le> p75 \<le> p90\<close> for each of open, high, low and close; and when
  the paths have the length of the first one, as the paths of one ensemble do, it returns
  an entry for every forecast date.
\<close>

theorem percentiles_monotone:
  assumes "paths \<noteq> []"
  shows "(\<forall>m d st. calculate_percentiles paths = Inr m \<and> m d = Some st \<longrightarrow> day_stats_ordered st) \<and>
         ((\<forall>p \<in> set paths. length p = length (hd paths)) \<longrightarrow>
            (\<exists>m. calculate_percentiles paths = Inr m \<and> dom m = c_date ` set (hd paths)))"
proof (intro conjI allI impI)
  fix m d st
  assume a: "calculate_percentiles paths = Inr m \<and> m d = Some st"
  then have "percentile_loop paths [0 ..< length (hd paths)] Map.empty = Inr m"
    using assms by (simp add: calculate_percentiles_def)
  from percentile_loop_ordered [OF assms this, of d st] a show "day_stats_ordered st"
    by simp
next
  assume "\<forall>p \<in> set paths. length p = length (hd paths)"
  then show "\<exists>m. calculate_percentiles paths = Inr m \<and> dom m = c_date ` set (hd paths)"
    using assms by (rule calculate_percentiles_total [rotated])
qed

theorem percentiles_monotone_witness:
  "two_paths \<noteq> [] \<and>
   (\<exists>m st. calculate_percentiles two_paths = Inr m \<and> m 739530 = Some st \<and> day_stats_ordered st)"
proof -
  have h: "two_paths \<noteq> []" by (simp add: two_paths_def)
  have s: "\<forall>p \<in> set two_paths. length p = length (hd two_paths)" by (simp add: two_paths_def)
  have c: "c_date ` set (hd two_paths) = {739530}" by (simp add: two_paths_def)
  from percentiles_monotone [OF h] s c
  obtain m where m: "calculate_percentiles two_paths = Inr m" "dom m = {739530}"
    by auto
  then obtain st where st: "m 739530 = Some st" by blast
  then have "day_stats_ordered st" using percentiles_monotone [OF h] m(1) by blast
  then show ?thesis using h m(1) st by blast
qed

section \<open>The record builder\<close>

lemma mean_loop_total:
  "\<forall>i \<in> set ds. day_in_range i paths \<Longrightarrow> mean_loop paths ds = Inr (map (mean_pred paths) ds)"
  by (induction ds) simp_all

lemma mean_predictions_ensemble:
  assumes "paths \<noteq> []" and "\<forall>p \<in> set paths. length p = n"
  shows "mean_predictions predictions paths = Inr (map (mean_pred paths) [0 ..< n])"
proof -
  have "length (hd paths) = n" using assms by (cases paths) simp_all
  then show ?thesis
    using assms(1) mean_loop_total [OF same_length_in_range [OF assms(2)]]
    by (simp add: mean_predictions_def)
qed

lemma create_prediction_json_ensemble:
  assumes "paths \<noteq> []" and "\<forall>p \<in> set paths. length p = n" and "0 < n"
    and "historical_data \<noteq> []"
  shows "\<exists>r. create_prediction_json ticker historical_data predictions paths now jitter = Inr r \<and>
             predicted_candlesticks (pj_chart_data r) = map (mean_pred paths) [0 ..< n] \<and>
             monte_carlo_paths (pj_chart_data r) = paths"
proof -
  have hd: "length (hd paths) = n" using assms(1,2) by (cases paths) simp_all
  then have "\<forall>p \<in> set paths. length p = length (hd paths)" using assms(2) by simp
  from calculate_percentiles_total [OF assms(1) this]
  obtain m where m: "calculate_percentiles paths = Inr m" by blast
  have ne: "map (mean_pred paths) [0 ..< n] \<noteq> []" using assms(3) by simp
  show ?thesis
    using assms(1,4) m ne mean_predictions_ensemble [OF assms(1,2), of predictions]
    by (simp add: create_prediction_json_def Let_def)
qed

text \<open>
  C4. For a non-empty ensemble of \<open>K\<close> paths of \<open>n\<close> days each,
  \<open>create_prediction_json\<close> returns a record whose predicted candle of day \<open>d\<close> has,
  in each of open, high, low, close and volume, the sum of the \<open>K\<close> paths' values at
  \<open>d\<close> divided by \<open>K\<close>. It is computed from all the paths and not taken from one of
  them: for the two paths of the witness it is the candle with open 102, which neither
  path has.
\<close>

theorem mean_path_is_ensemble_mean:
  assumes "paths \<noteq> []" and "\<forall>p \<in> set paths. length p = n" and "0 < n"
    and "historical_data \<noteq> []"
  shows "\<exists>r. create_prediction_json ticker historical_data predictions paths now jitter = Inr r \<and>
           length (predicted_candlesticks (pj_chart_data r)) = n \<and>
           (\<forall>d < n.
              c_open (predicted_candlesticks (pj_chart_data r) ! d) =
                sum_list (map (\<lambda>p. c_open (p ! d)) paths) / real (length paths) \<and>
              c_high (predicted_candlesticks (pj_chart_data r) ! d) =
                sum_list (map (\<lambda>p. c_high (p ! d)) paths) / real (length paths) \<and>
              c_low (predicted_candlesticks (pj_chart_data r) ! d) =
                sum_list (map (\<lambda>p. c_low (p ! d)) paths) / real (length paths) \<and>
              c_close (predicted_candlesticks (pj_chart_data r) ! d) =
                sum_list (map (\<lambda>p. c_close (p ! d)) paths) / real (length paths) \<and>
              c_volume (predicted_candlesticks (pj_chart_data r) ! d) =
                sum_list (map (\<lambda>p. c_volume (p ! d)) paths) / real (length paths))"
proof -
  from create_prediction_json_ensemble [OF assms, of ticker predictions now jitter]
  obtain r where r: "create_prediction_json ticker historical_data predictions paths now jitter = Inr r"
    "predicted_candlesticks (pj_chart_data r) = map (mean_pred paths) [0 ..< n]"
    by blast
  have "length (predicted_candlesticks (pj_chart_data r)) = n" using r(2) by simp
  moreover have "\<forall>d < n.
              c_open (predicted_candlesticks (pj_chart_data r) ! d) =
                sum_list (map (\<lambda>p. c_open (p ! d)) paths) / real (length paths) \<and>
              c_high (predicted_candlesticks (pj_chart_data r) ! d) =
                sum_list (map (\<lambda>p. c_high (p ! d)) paths) / real (length paths) \<and>
              c_low (predicted_candlesticks (pj_chart_data r) ! d) =
                sum_list (map (\<lambda>p. c_low (p ! d)) paths) / real (length paths) \<and>
              c_close (predicted_candlesticks (pj_chart_data r) ! d) =
                sum_list (map (\<lambda>p. c_close (p ! d)) paths) / real (length paths) \<and>
              c_volume (predicted_candlesticks (pj_chart_data r) ! d) =
                sum_list (map (\<lambda>p. c_volume (p ! d)) paths) / real (length paths)"
    unfolding r(2) by (simp add: mean_pred_def mean_def column_def)
  ultimately show ?thesis using r(1) by blast
qed

theorem mean_path_is_ensemble_mean_witness:
  "two_paths \<noteq> [] \<and> list_all (\<lambda>p. length p = 1) two_paths \<and> october_window \<noteq> [] \<and>
   (\<exists>r. create_prediction_json ''AAPL'' october_window [] two_paths ''2025-10-04T09:00:00'' 3 = Inr r \<and>
      length (predicted_candlesticks (pj_chart_data r)) = 1 \<and>
      c_open (predicted_candlesticks (pj_chart_data r) ! 0) = 102 \<and>
      c_close (predicted_candlesticks (pj_chart_data r) ! 0) = 104)"
proof -
  have h: "two_paths \<noteq> []" by (simp add: two_paths_def)
  have s: "\<forall>p \<in> set two_paths. length p = 1" by (simp add: two_paths_def)
  have w: "october_window \<noteq> []" by (simp add: october_window_def)
  have o: "sum_list (map (\<lambda>p. c_open (p ! 0)) two_paths) / real (length two_paths) = 102"
    by (simp add: two_paths_def)
  have c: "sum_list (map (\<lambda>p. c_close (p ! 0)) two_paths) / real (length two_paths) = 104"
    by (simp add: two_paths_def)
  from mean_path_is_ensemble_mean [OF h s _ w, of "''AAPL''" "[]" "''2025-10-04T09:00:00''" 3]
  obtain r where r: "create_prediction_json ''AAPL'' october_window [] two_paths ''2025-10-04T09:00:00'' 3 = Inr r"
    "length (predicted_candlesticks (pj_chart_data r)) = 1"
    "c_open (predicted_candlesticks (pj_chart_data r) ! 0) =
       sum_list (map (\<lambda>p. c_open (p ! 0)) two_paths) / real (length two_paths)"
    "c_close (predicted_candlesticks (pj_chart_data r) ! 0) =
       sum_list (map (\<lambda>p. c_close (p ! 0)) two_paths) / real (length two_paths)"
    by auto
  have "list_all (\<lambda>p. length p = 1) two_paths" using s by (simp add: list_all_iff)
  then show ?thesis using h w r o c by auto
qed

lemma create_prediction_json_no_paths:
  "create_prediction_json ticker historical_data predictions [] now jitter =
     (if historical_data = [] \<or> predictions = [] then Inl IndexError
      else Inr
        \<lparr> pj_ticker_info =
            \<lparr> ti_symbol = ticker, ti_generated_at = now,
              ti_model_type = ''kronos-120d-5d-montecarlo'',
              ti_monte_carlo_runs = MONTE_CARLO_RUNS,
              ti_data_completeness = ''full_120_day_history_with_monte_carlo'',
              ti_chart_compatibility = ''candlestick_ready'' \<rparr>,
          pj_ticker = ticker,
          pj_metadata =
            \<lparr> md_lookback_start = c_date (hd historical_data),
              md_lookback_end = c_date (last historical_data),
              md_lookback_days = length historical_data,
              md_prediction_start = c_date (hd predictions),
              md_prediction_end = c_date (last predictions),
              md_prediction_days = length predictions,
              md_monte_carlo_runs = MONTE_CARLO_RUNS,
              md_data_completeness = ''full_ohlcv_with_monte_carlo'' \<rparr>,
          pj_chart_data =
            \<lparr> historical_candlesticks = historical_data,
              predicted_candlesticks = predictions,
              monte_carlo_paths = [],
              prediction_percentiles = Map.empty,
              actual_candlesticks = [] \<rparr>,
          pj_summary_stats =
            \<lparr> ss_overall_score = min 95 (max 70 (85 + jitter)),
              ss_prediction_quality = quality_label (annualized_volatility historical_data),
              ss_volatility = map_option py_round2 (annualized_volatility historical_data),
              ss_monte_carlo_runs = MONTE_CARLO_RUNS \<rparr> \<rparr>)"
  by (simp add: create_prediction_json_def mean_predictions_def Let_def)

text \<open>
  C8. With no Monte Carlo path the record takes the base predictions as its predicted
  candlesticks, its percentile map is empty and so is its list of paths; and when the base
  predictions are empty too, no record is built: \<open>mean_predictions[0]\<close> raises.
\<close>

theorem empty_ensemble_fallback:
  "(historical_data \<noteq> [] \<and> predictions \<noteq> [] \<longrightarrow>
      (\<exists>r. create_prediction_json ticker historical_data predictions [] now jitter = Inr r \<and>
           predicted_candlesticks (pj_chart_data r) = predictions \<and>
           prediction_percentiles (pj_chart_data r) = Map.empty \<and>
           monte_carlo_paths (pj_chart_data r) = [])) \<and>
   (predictions = [] \<longrightarrow>
      create_prediction_json ticker historical_data predictions [] now jitter = Inl IndexError) \<and>
   calculate_percentiles [] = Inr Map.empty \<and>
   generate_monte_carlo_paths historical_data n 0 g = Inr ([], g)"
  by (simp add: create_prediction_json_no_paths calculate_percentiles_def
      generate_monte_carlo_paths_def)

theorem empty_ensemble_fallback_witness:
  "october_window \<noteq> [] \<and> [flat_candle 739530] \<noteq> [] \<and>
   (\<exists>r. create_prediction_json ''AAPL'' october_window [flat_candle 739530] []
            ''2025-10-04T09:00:00'' 3 = Inr r \<and>
        predicted_candlesticks (pj_chart_data r) = [flat_candle 739530] \<and>
        prediction_percentiles (pj_chart_data r) = Map.empty \<and>
        monte_carlo_paths (pj_chart_data r) = []) \<and>
   create_prediction_json ''AAPL'' october_window [] [] ''2025-10-04T09:00:00'' 3 = Inl IndexError"
proof -
  have w: "october_window \<noteq> []" by (simp add: october_window_def)
  show ?thesis
    using w
      empty_ensemble_fallback [of october_window "[flat_candle 739530]" "''AAPL''"
        "''2025-10-04T09:00:00''" 3 0 half_draws]
      empty_ensemble_fallback [of october_window "[]" "''AAPL''" "''2025-10-04T09:00:00''" 3 0 half_draws]
    by simp
qed

section \<open>Short windows\<close>

lemma create_prediction_json_total:
  assumes "historical_data \<noteq> []" and "predictions \<noteq> []"
    and "\<forall>p \<in> set paths. length p = n" and "0 < n"
  shows "\<exists>r. create_prediction_json ticker historical_data predictions paths now jitter = Inr r"
proof (cases "paths = []")
  case True
  then show ?thesis using assms(1,2) by (simp add: create_prediction_json_no_paths)
next
  case False
  from create_prediction_json_ensemble [OF False assms(3,4,1), of ticker predictions now jitter]
  show ?thesis by blast
qed

lemma process_ticker_short:
  assumes "load_parquet_data fs ticker = Some df"
    and "length (get_lookback_data df LOOKBACK_END LOOKBACK_DAYS) < 20"
  shows "process_ticker ticker now jitter fs g = Inr (False, fs, g)"
  using assms by (simp add: process_ticker_def Let_def)

lemma process_ticker_long:
  assumes "load_parquet_data fs ticker = Some df"
    and "20 \<le> length (get_lookback_data df LOOKBACK_END LOOKBACK_DAYS)"
    and "0 \<notin> set (butlast (map c_close (get_lookback_data df LOOKBACK_END LOOKBACK_DAYS)))"
  shows "\<exists>fs' g'. process_ticker ticker now jitter fs g = Inr (True, fs', g') \<and>
           prediction_files fs' ticker \<noteq> None \<and> parquet fs' = parquet fs"
proof -
  define h where "h = get_lookback_data df LOOKBACK_END LOOKBACK_DAYS"
  have h20: "20 \<le> length h" using assms(2) by (simp add: h_def)
  have z: "0 \<notin> set (butlast (map c_close h))" using assms(3) by (simp add: h_def)
  have hne: "h \<noteq> []" using h20 by auto
  obtain preds g1 where p: "generate_predictions h PREDICTION_DAYS g = Inr (Some preds, g1)"
    using generate_predictions_total [OF h20 z] by blast
  have "length preds = PREDICTION_DAYS" using generate_predictions_Inr [OF p] by simp
  then have pne: "preds \<noteq> []" by (auto simp: PREDICTION_DAYS_def)
  obtain paths g2 where
    m: "generate_monte_carlo_paths h PREDICTION_DAYS MONTE_CARLO_RUNS g1 = Inr (paths, g2)"
    using generate_monte_carlo_paths_total [OF z] by blast
  have "\<forall>p \<in> set paths. length p = PREDICTION_DAYS"
    using generate_monte_carlo_paths_shape [OF m] by (simp add: list_all_iff)
  from create_prediction_json_total [OF hne pne this, of ticker now jitter]
  obtain r where r: "create_prediction_json ticker h preds paths now jitter = Inr r"
    by (auto simp: PREDICTION_DAYS_def)
  have "process_ticker ticker now jitter fs g =
          Inr (True, fs\<lparr>prediction_files := (prediction_files fs)(ticker \<mapsto> r)\<rparr>, g2)"
    using assms(1) h20 p pne m r
    by (simp add: process_ticker_def Let_def h_def [symmetric])
  then show ?thesis by simp
qed

lemma process_ticker_not_False:
  assumes "load_parquet_data fs ticker = Some df"
    and "20 \<le> length (get_lookback_data df LOOKBACK_END LOOKBACK_DAYS)"
  shows "process_ticker ticker now jitter fs g \<noteq> Inr (False, fs', g')"
proof -
  define h where "h = get_lookback_data df LOOKBACK_END LOOKBACK_DAYS"
  have h20: "20 \<le> length h" using assms(2) by (simp add: h_def)
  show ?thesis
  proof (cases "generate_predictions h PREDICTION_DAYS g")
    case (Inl err)
    then show ?thesis using assms(1) h20
      by (simp add: process_ticker_def Let_def h_def [symmetric])
  next
    case (Inr res)
    obtain r g1 where res: "res = (r, g1)" by (cases res) auto
    show ?thesis
    proof (cases r)
      case None
      then show ?thesis using Inr res generate_predictions_not_None [OF h20, of PREDICTION_DAYS g g1]
        by simp
    next
      case (Some preds)
      then have p: "generate_predictions h PREDICTION_DAYS g = Inr (Some preds, g1)"
        using Inr res by simp
      have "length preds = PREDICTION_DAYS" using generate_predictions_Inr [OF p] by simp
      then have pne: "preds \<noteq> []" by (auto simp: PREDICTION_DAYS_def)
      show ?thesis using assms(1) h20 p pne
        by (simp add: process_ticker_def Let_def h_def [symmetric] split: sum.splits prod.splits)
    qed
  qed
qed

lemma process_ticker_raises:
  assumes "load_parquet_data fs ticker = Some df"
    and "generate_predictions (get_lookback_data df LOOKBACK_END LOOKBACK_DAYS) PREDICTION_DAYS g
           = Inl err"
  shows "process_ticker ticker now jitter fs g = Inl err"
proof -
  have "\<not> length (get_lookback_data df LOOKBACK_END LOOKBACK_DAYS) < 20"
    using assms(2) by (auto simp: generate_predictions_def)
  then show ?thesis using assms by (simp add: process_ticker_def Let_def)
qed

text \<open>
  C7. A window of fewer than 20 rows makes \<open>generate_predictions\<close> return \<open>None\<close> and
  the ensemble driver return no path, and \<open>process_ticker\<close> returns \<open>False\<close> with the
  files as they were: nothing is written for the ticker. A window of at least 20 rows never
  takes that exit: \<open>generate_predictions\<close> does not return \<open>None\<close> and
  \<open>process_ticker\<close> does not return \<open>False\<close>; and when no close that a return divides
  by is 0, \<open>generate_predictions\<close> returns a path and \<open>process_ticker\<close> writes the
  ticker's prediction file and returns \<open>True\<close>.
\<close>

theorem insufficient_history:
  assumes "load_parquet_data fs ticker = Some df"
    and "historical = get_lookback_data df LOOKBACK_END LOOKBACK_DAYS"
  shows "(length historical < 20 \<longrightarrow>
            generate_predictions historical n g = Inr (None, g) \<and>
            generate_monte_carlo_paths historical n k g = Inr ([], g) \<and>
            process_ticker ticker now jitter fs g = Inr (False, fs, g)) \<and>
         (20 \<le> length historical \<longrightarrow>
            (\<forall>g'. generate_predictions historical n g \<noteq> Inr (None, g')) \<and>
            (\<forall>fs' g'. process_ticker ticker now jitter fs g \<noteq> Inr (False, fs', g')) \<and>
            (0 \<notin> set (butlast (map c_close historical)) \<longrightarrow>
               (\<exists>preds g'. generate_predictions historical n g = Inr (Some preds, g')) \<and>
               (\<exists>fs' g'. process_ticker ticker now jitter fs g = Inr (True, fs', g') \<and>
                   prediction_files fs' ticker \<noteq> None)))"
proof (intro conjI impI allI)
  assume s: "length historical < 20"
  show "generate_predictions historical n g = Inr (None, g)"
    using s by (rule generate_predictions_None)
  show "generate_monte_carlo_paths historical n k g = Inr ([], g)"
    using s by (simp add: generate_monte_carlo_paths_def)
  show "process_ticker ticker now jitter fs g = Inr (False, fs, g)"
    using s assms(2) by (intro process_ticker_short [OF assms(1)]) simp
next
  fix g'
  assume l: "20 \<le> length historical"
  show "generate_predictions historical n g \<noteq> Inr (None, g')"
    using l by (rule generate_predictions_not_None)
next
  fix fs' g'
  assume l: "20 \<le> length historical"
  show "process_ticker ticker now jitter fs g \<noteq> Inr (False, fs', g')"
    using l assms(2) by (intro process_ticker_not_False [OF assms(1)]) simp
next
  assume l: "20 \<le> length historical" and z: "0 \<notin> set (butlast (map c_close historical))"
  show "\<exists>preds g'. generate_predictions historical n g = Inr (Some preds, g')"
    using l z by (rule generate_predictions_total)
  from process_ticker_long [OF assms(1), of now jitter g] l z assms(2)
  show "\<exists>fs' g'. process_ticker ticker now jitter fs g = Inr (True, fs', g') \<and>
                prediction_files fs' ticker \<noteq> None"
    by blast
qed

theorem insufficient_history_witness:
  "load_parquet_data sample_files ''NEWCO'' = Some (take 5 october_window) \<and>
   length (get_lookback_data (take 5 october_window) LOOKBACK_END LOOKBACK_DAYS) < 20 \<and>
   process_ticker ''NEWCO'' ''2025-10-04T09:00:00'' 3 sample_files half_draws
     = Inr (False, sample_files, half_draws) \<and>
   load_parquet_data sample_files ''AAPL'' = Some october_window \<and>
   20 \<le> length (get_lookback_data october_window LOOKBACK_END LOOKBACK_DAYS) \<and>
   0 \<notin> set (butlast (map c_close (get_lookback_data october_window LOOKBACK_END LOOKBACK_DAYS))) \<and>
   (\<exists>fs' g'. process_ticker ''AAPL'' ''2025-10-04T09:00:00'' 3 sample_files half_draws
                = Inr (True, fs', g') \<and> prediction_files fs' ''AAPL'' \<noteq> None)"
proof -
  have a: "load_parquet_data sample_files ''NEWCO'' = Some (take 5 october_window)"
    by (simp add: load_parquet_data_def sample_files_def)
  have b: "length (get_lookback_data (take 5 october_window) LOOKBACK_END LOOKBACK_DAYS) < 20"
    by (simp add: get_lookback_data_def tail_def october_window_def flat_candle_def
        LOOKBACK_END_def LOOKBACK_DAYS_def)
  have c: "load_parquet_data sample_files ''AAPL'' = Some october_window"
    by (simp add: load_parquet_data_def sample_files_def)
  have e: "get_lookback_data october_window LOOKBACK_END LOOKBACK_DAYS = october_window"
    by (simp add: get_lookback_data_def tail_def october_window_def flat_candle_def
        LOOKBACK_END_def LOOKBACK_DAYS_def)
  have d: "20 \<le> length (get_lookback_data october_window LOOKBACK_END LOOKBACK_DAYS)"
    unfolding e by (simp add: october_window_def)
  have z: "0 \<notin> set (butlast (map c_close (get_lookback_data october_window LOOKBACK_END LOOKBACK_DAYS)))"
    unfolding e by (simp add: october_window_def flat_candle_def)
  show ?thesis
    using a b c d z
      insufficient_history [OF a refl, of 5 half_draws 10 "''2025-10-04T09:00:00''" 3]
      insufficient_history [OF c refl, of 5 half_draws 10 "''2025-10-04T09:00:00''" 3]
    by simp
qed

text \<open>With the halted window in the store the run raises and leaves no file.\<close>

lemma process_ticker_halted:
  assumes "load_parquet_data fs ticker = Some halted_window"
  shows "process_ticker ticker now jitter fs g = Inl OverflowError"
proof -
  have e: "get_lookback_data halted_window LOOKBACK_END LOOKBACK_DAYS = halted_window"
    by (simp add: get_lookback_data_def tail_def halted_window_def october_window_def
        flat_candle_def LOOKBACK_END_def LOOKBACK_DAYS_def)
  show ?thesis
    using halted_window_raises [of g]
    by (intro process_ticker_raises [OF assms]) (simp add: e PREDICTION_DAYS_def)
qed

section \<open>Summary statistics\<close>

lemma round_half_even_close: "\<bar>of_int (round_half_even y) - y\<bar> \<le> 1 / 2"
proof -
  have "of_int \<lfloor>y\<rfloor> \<le> y" "y < of_int \<lfloor>y\<rfloor> + 1" by linarith+
  then show ?thesis
    by (auto simp add: round_half_even_def Let_def abs_le_iff)
qed

lemma py_round2_close: "\<bar>py_round2 x - x\<bar> \<le> 1 / 200"
proof -
  have e: "py_round2 x - x = (of_int (round_half_even (x * 100)) - x * 100) / 100"
    by (simp add: py_round2_def field_simps)
  show ?thesis
    unfolding e abs_divide using round_half_even_close [of "x * 100"] by simp
qed

lemma create_prediction_json_summary:
  assumes "create_prediction_json ticker historical_data predictions paths now jitter = Inr r"
  shows "pj_summary_stats r =
           \<lparr> ss_overall_score = min 95 (max 70 (85 + jitter)),
             ss_prediction_quality = quality_label (annualized_volatility historical_data),
             ss_volatility = map_option py_round2 (annualized_volatility historical_data),
             ss_monte_carlo_runs = MONTE_CARLO_RUNS \<rparr>"
  using assms
  by (auto simp add: create_prediction_json_def Let_def split: sum.splits if_splits)

text \<open>
  C9, as the code has it. For a record built from a window of at least three rows (two
  returns; every window of 20 rows is one), with \<open>v\<close> the sample standard deviation of the
  full-window returns times \<open>sqrt 252\<close> times 100: the reported volatility is \<open>v\<close>
  rounded to two decimals, so within 0.005 of \<open>v\<close>; the label is GOOD exactly when the
  unrounded \<open>v\<close> is below 40 and MODERATE otherwise; and the score lies between 70 and 95
  for every jitter.
\<close>

text \<open>
  C9, as the code has it. For every record the builder returns, the reported volatility is
  the standard deviation of the returns times \<open>sqrt 252\<close> times 100, rounded to two
  decimals, and NaN when that standard deviation is; the label is GOOD exactly when the
  unrounded value is a number below 40, and MODERATE otherwise; and the score lies between
  70 and 95 for every jitter. For a window of at least three rows in which no close that a
  return divides by is 0 (every window of 20 such rows is one), with \<open>v\<close> the sample
  standard deviation of the full-window simple returns times \<open>sqrt 252\<close> times 100: the
  reported volatility is \<open>v\<close> rounded to two decimals, so within 0.005 of \<open>v\<close>, and the
  label is GOOD exactly when \<open>v < 40\<close>.
\<close>

theorem record_summary_stats:
  assumes "create_prediction_json ticker historical_data predictions paths now jitter = Inr r"
    and "returns = map2 (\<lambda>a b. b / a - 1) (butlast (map c_close historical_data))
                     (tl (map c_close historical_data))"
    and "v = sample_std returns * sqrt 252 * 100"
  shows "ss_volatility (pj_summary_stats r) =
           map_option (\<lambda>s. py_round2 (s * sqrt 252 * 100))
             (pd_std (pct_change (map c_close historical_data))) \<and>
         (ss_prediction_quality (pj_summary_stats r) = ''GOOD'') =
           (\<exists>s. pd_std (pct_change (map c_close historical_data)) = Some s \<and>
                s * sqrt 252 * 100 < 40) \<and>
         (ss_prediction_quality (pj_summary_stats r) = ''MODERATE'') =
           (\<not> (\<exists>s. pd_std (pct_change (map c_close historical_data)) = Some s \<and>
                s * sqrt 252 * 100 < 40)) \<and>
         (3 \<le> length historical_data \<and> 0 \<notin> set (butlast (map c_close historical_data)) \<longrightarrow>
            pd_std (pct_change (map c_close historical_data)) = Some (sample_std returns) \<and>
            ss_volatility (pj_summary_stats r) = Some (py_round2 v) \<and>
            \<bar>py_round2 v - v\<bar> \<le> 1 / 200 \<and>
            (ss_prediction_quality (pj_summary_stats r) = ''GOOD'') = (v < 40) \<and>
            (ss_prediction_quality (pj_summary_stats r) = ''MODERATE'') = (\<not> v < 40)) \<and>
         70 \<le> ss_overall_score (pj_summary_stats r) \<and>
         ss_overall_score (pj_summary_stats r) \<le> 95"
proof -
  note s = create_prediction_json_summary [OF assms(1)]
  have a: "annualized_volatility historical_data =
             map_option (\<lambda>s. s * sqrt 252 * 100) (pd_std (pct_change (map c_close historical_data)))"
    by (simp add: annualized_volatility_def Let_def)
  have 1: "ss_volatility (pj_summary_stats r) =
           map_option (\<lambda>s. py_round2 (s * sqrt 252 * 100))
             (pd_std (pct_change (map c_close historical_data)))"
    unfolding s a by (simp add: option.map_comp comp_def)
  have 2: "(ss_prediction_quality (pj_summary_stats r) = ''GOOD'') =
           (\<exists>s. pd_std (pct_change (map c_close historical_data)) = Some s \<and>
                s * sqrt 252 * 100 < 40)"
    unfolding s a by (cases "pd_std (pct_change (map c_close historical_data))")
      (simp_all add: quality_label_def)
  have 3: "(ss_prediction_quality (pj_summary_stats r) = ''MODERATE'') =
           (\<not> (\<exists>s. pd_std (pct_change (map c_close historical_data)) = Some s \<and>
                s * sqrt 252 * 100 < 40))"
    unfolding s a by (cases "pd_std (pct_change (map c_close historical_data))")
      (simp_all add: quality_label_def)
  have 4: "pd_std (pct_change (map c_close historical_data)) = Some (sample_std returns)"
    if "3 \<le> length historical_data" "0 \<notin> set (butlast (map c_close historical_data))"
  proof -
    have "pct_change (map c_close historical_data) = map Finite returns"
      unfolding assms(2) using that(2) by (rule pct_change_finite)
    moreover have "2 \<le> length returns" using that(1) by (simp add: assms(2))
    ultimately show ?thesis by (simp add: pd_std_finite)
  qed
  have 5: "70 \<le> ss_overall_score (pj_summary_stats r)" "ss_overall_score (pj_summary_stats r) \<le> 95"
    unfolding s by simp_all
  show ?thesis
    using 1 2 3 4 5 py_round2_close [of v] assms(3) by auto
qed

theorem record_summary_stats_witness:
  "3 \<le> length october_window \<and> 0 \<notin> set (butlast (map c_close october_window)) \<and>
   (\<exists>r. create_prediction_json ''AAPL'' october_window [flat_candle 739530] []
            ''2025-10-04T09:00:00'' 3 = Inr r \<and>
        70 \<le> ss_overall_score (pj_summary_stats r) \<and>
        ss_overall_score (pj_summary_stats r) \<le> 95 \<and>
        ss_volatility (pj_summary_stats r) =
          Some (py_round2 (sample_std (map2 (\<lambda>a b. b / a - 1) (butlast (map c_close october_window))
                     (tl (map c_close october_window))) * sqrt 252 * 100)))"
proof -
  have l: "3 \<le> length october_window" by (simp add: october_window_def)
  have z: "0 \<notin> set (butlast (map c_close october_window))"
    by (simp add: october_window_def flat_candle_def)
  have w: "october_window \<noteq> []" by (simp add: october_window_def)
  obtain r where r: "create_prediction_json ''AAPL'' october_window [flat_candle 739530] []
            ''2025-10-04T09:00:00'' 3 = Inr r"
    using w by (simp add: create_prediction_json_no_paths)
  from record_summary_stats [OF r refl refl] show ?thesis using l z r by blast
qed

lemma jump_window_returns:
  "pct_change (map c_close jump_window) = map Finite (replicate 27 0 @ [1 / 900])"
  by (simp add: jump_window_def step_candle_def numeral_eq_Suc)

lemma jump_window_variance:
  "sum_list (map (\<lambda>x. (x - mean (replicate 27 0 @ [1 / 900]))\<^sup>2) (replicate 27 0 @ [1 / 900]))
     / (real (length (replicate 27 0 @ [1 / 900 :: real])) - 1) = 28 / 25200\<^sup>2"
  by (simp add: mean_def sum_list_replicate power2_eq_square map_replicate_const)

lemma jump_window_std:
  "pd_std (pct_change (map c_close jump_window)) = Some (sqrt (28 / 25200\<^sup>2))"
proof -
  have s: "sample_std (replicate 27 0 @ [1 / 900]) = sqrt (28 / 25200\<^sup>2)"
    unfolding sample_std_def jump_window_variance ..
  have "pd_std (map Finite (replicate 27 0 @ [1 / 900])) =
          Some (sample_std (replicate 27 0 @ [1 / 900]))"
    by (rule pd_std_finite) simp
  then show ?thesis
    unfolding jump_window_returns s .
qed

lemma jump_window_volatility: "annualized_volatility jump_window = Some (1 / 3)"
proof -
  have "sqrt (28 / 25200\<^sup>2) * sqrt 252 = sqrt (28 / 25200\<^sup>2 * 252)"
    by (simp only: real_sqrt_mult)
  also have "28 / 25200\<^sup>2 * 252 = ((1 / 300)\<^sup>2 :: real)"
    by (simp add: power2_eq_square)
  also have "sqrt ((1 / 300)\<^sup>2) = (1 / 300 :: real)"
    by simp
  finally have "sqrt (28 / 25200\<^sup>2) * sqrt 252 * 100 = 1 / 3" by simp
  then show ?thesis
    by (simp add: annualized_volatility_def Let_def jump_window_std)
qed

lemma py_round2_third: "py_round2 (1 / 3) = 33 / 100"
  by (simp add: py_round2_def round_half_even_def Let_def)

text \<open>
  C9, as the claim states it, fails: on the 29-day window whose last close rises from 900
  to 901 the annualized volatility is exactly 1/3, and the record reports 0.33.
\<close>

theorem reported_volatility_counterexample:
  "map_option (\<lambda>s. s * sqrt 252 * 100) (pd_std (pct_change (map c_close jump_window))) = Some (1 / 3) \<and>
   (case create_prediction_json ''AAPL'' jump_window [flat_candle 739530] []
           ''2025-10-04T09:00:00'' 3 of
      Inl err \<Rightarrow> None
    | Inr r \<Rightarrow> ss_volatility (pj_summary_stats r)) = Some (33 / 100)"
proof -
  have w: "jump_window \<noteq> []" by (simp add: jump_window_def)
  have "map_option (\<lambda>s. s * sqrt 252 * 100) (pd_std (pct_change (map c_close jump_window))) = Some (1 / 3)"
    using jump_window_volatility by (simp add: annualized_volatility_def Let_def)
  then show ?thesis
    using w by (simp add: create_prediction_json_no_paths jump_window_volatility py_round2_third)
qed

text \<open>On the halted window the standard deviation is NaN: the record reports NaN and the
  label MODERATE.\<close>

lemma halted_window_summary:
  "annualized_volatility halted_window = None \<and>
   (case create_prediction_json ''AAPL'' halted_window [flat_candle 739530] []
           ''2025-10-04T09:00:00'' 3 of
      Inl err \<Rightarrow> None
    | Inr r \<Rightarrow> Some (ss_volatility (pj_summary_stats r), ss_prediction_quality (pj_summary_stats r)))
     = Some (None, ''MODERATE'')"
proof -
  have a: "annualized_volatility halted_window = None"
    by (simp add: annualized_volatility_def Let_def halted_window_def october_window_def
        flat_candle_def pd_std_def)
  have w: "halted_window \<noteq> []" by (simp add: halted_window_def october_window_def)
  show ?thesis
    using w by (simp add: a create_prediction_json_no_paths quality_label_def)
qed

end
